theory Spec2Isabelle
  imports Main
begin

section \<open>JavaScript values\<close>

text \<open>
  The handlers exchange JSON documents. A parsed document is a \<open>json\<close> value; the value
  \<open>undefined\<close>, which \<open>JSON.parse\<close> never produces but which a property read does, is
  \<open>None\<close> of \<open>json option\<close>. An object is the list of its own properties, read with
  \<open>map_of\<close>. Numbers are integers: the code below only tests a JSON number for being
  zero.
\<close>

datatype json =
    JNull
  | JBool bool
  | JNum int
  | JStr string
  | JArr "json list"
  | JObj "(string \<times> json) list"

text \<open>
  A thrown value: an \<open>Error\<close> object with its \<open>name\<close> and \<open>message\<close>, or anything else
  (\<open>error instanceof Error\<close> is false for \<open>NonError\<close>).
\<close>

datatype js_error = JsError string string | NonError

fun error_name :: "js_error \<Rightarrow> string option" where
  "error_name (JsError n m) = Some n"
| "error_name NonError = None"

fun error_message :: "js_error \<Rightarrow> string option" where
  "error_message (JsError n m) = Some m"
| "error_message NonError = None"

text \<open>Truthiness of a value (\<open>!v\<close> is its negation).\<close>

fun truthy :: "json option \<Rightarrow> bool" where
  "truthy None = False"
| "truthy (Some JNull) = False"
| "truthy (Some (JBool b)) = b"
| "truthy (Some (JNum n)) = (n \<noteq> 0)"
| "truthy (Some (JStr s)) = (s \<noteq> [])"
| "truthy (Some (JArr xs)) = True"
| "truthy (Some (JObj kvs)) = True"

text \<open>\<open>typeof v === 'string'\<close> and \<open>typeof v === 'object'\<close>.\<close>

fun typeof_string :: "json option \<Rightarrow> bool" where
  "typeof_string (Some (JStr s)) = True"
| "typeof_string v = False"

fun typeof_object :: "json option \<Rightarrow> bool" where
  "typeof_object (Some JNull) = True"
| "typeof_object (Some (JArr xs)) = True"
| "typeof_object (Some (JObj kvs)) = True"
| "typeof_object v = False"

text \<open>\<open>a || b\<close>.\<close>

definition js_or :: "json option \<Rightarrow> json option \<Rightarrow> json option" where
  "js_or a b = (if truthy a then a else b)"

text \<open>
  The property read \<open>v.k\<close>. On \<open>null\<close> and \<open>undefined\<close> it throws a \<open>TypeError\<close> (the
  message is the one of V8); on an object it reads the own property; on any other value
  it is \<open>undefined\<close> for the property names the code uses (\<open>token\<close>, \<open>testId\<close>, \<open>apiKey\<close>,
  \<open>api_key\<close>, \<open>accessCodes\<close>, \<open>accessCode\<close>, \<open>access_code\<close>, \<open>code\<close>), none of which is a
  property of a string, number, boolean or array.
\<close>

definition null_read :: "string \<Rightarrow> string \<Rightarrow> js_error" where
  "null_read what k =
     JsError ''TypeError''
       (''Cannot read properties of '' @ what @ '' (reading '' @ [CHR 0x27] @ k @ [CHR 0x27] @ '')'')"

fun get_prop :: "json option \<Rightarrow> string \<Rightarrow> js_error + json option" where
  "get_prop None k = Inl (null_read ''undefined'' k)"
| "get_prop (Some JNull) k = Inl (null_read ''null'' k)"
| "get_prop (Some (JObj kvs)) k = Inr (map_of kvs k)"
| "get_prop (Some v) k = Inr None"

text \<open>The optional read \<open>v?.k\<close>: \<open>undefined\<close> on \<open>null\<close> and \<open>undefined\<close>.\<close>

fun opt_prop :: "json option \<Rightarrow> string \<Rightarrow> json option" where
  "opt_prop (Some (JObj kvs)) k = map_of kvs k"
| "opt_prop v k = None"

text \<open>
  The optional element read \<open>v?.[0]\<close>: the first element of an array, the first character
  of a string, the property \<open>"0"\<close> of an object.
\<close>

fun opt_index0 :: "json option \<Rightarrow> json option" where
  "opt_index0 (Some (JArr xs)) = (case xs of [] \<Rightarrow> None | x # _ \<Rightarrow> Some x)"
| "opt_index0 (Some (JStr s)) = (case s of [] \<Rightarrow> None | c # _ \<Rightarrow> Some (JStr [c]))"
| "opt_index0 (Some (JObj kvs)) = map_of kvs ''0''"
| "opt_index0 v = None"

text \<open>
  A number read from a stored record, after \<open>ToNumber\<close>: a missing or non-numeric
  attribute is \<open>NaN\<close>. Every use of \<open>record.ttl\<close> and \<open>record.createdAt\<close> in the code
  (\<open><\<close> against a number, \<open>* 1000\<close>) converts with \<open>ToNumber\<close> first.
\<close>

datatype jsnum = NaN | Num int

fun js_less :: "jsnum \<Rightarrow> jsnum \<Rightarrow> bool" where
  "js_less (Num a) (Num b) = (a < b)"
| "js_less a b = False"

fun js_times :: "jsnum \<Rightarrow> int \<Rightarrow> jsnum" where
  "js_times (Num a) k = Num (a * k)"
| "js_times NaN k = NaN"

text \<open>
  \<open>new Date(v).toISOString()\<close> throws a \<open>RangeError\<close> when \<open>v\<close> is not a time value: \<open>NaN\<close>,
  or beyond 8.64e15 milliseconds from the epoch. The string it returns otherwise is only
  logged, so the model keeps the outcome alone.
\<close>

definition invalid_time :: js_error where
  "invalid_time = JsError ''RangeError'' ''Invalid time value''"

fun toISOString :: "jsnum \<Rightarrow> js_error + unit" where
  "toISOString NaN = Inl invalid_time"
| "toISOString (Num v) =
     (if - 8640000000000000 \<le> v \<and> v \<le> 8640000000000000 then Inr () else Inl invalid_time)"

text \<open>\<open>`${n}`\<close> for a natural number: its decimal digits.\<close>

definition digit_char :: "nat \<Rightarrow> char" where
  "digit_char d = char_of (48 + d)"

function string_of_nat :: "nat \<Rightarrow> string" where
  "string_of_nat n =
     (if n < 10 then [digit_char n] else string_of_nat (n div 10) @ [digit_char (n mod 10)])"
  by pat_completeness auto
termination
  by (relation "measure (\<lambda>n. n)") auto

declare string_of_nat.simps [simp del]

section \<open>The world outside the handlers\<close>

text \<open>The record of the tokens table (\<open>TokenRecord\<close>).\<close>

record TokenRecord =
  token :: string
  ttl :: jsnum
  createdAt :: jsnum

text \<open>The request that \<open>requestAccessCode\<close> sends to the provider with \<open>fetch\<close>.\<close>

record provider_request =
  req_url :: string
  req_method :: string
  req_content_type :: string
  req_api_key :: json
  req_body :: json

text \<open>
  The reply of \<open>fetch\<close>: the status line and what \<open>response.text()\<close> and
  \<open>response.json()\<close> give (each may reject).
\<close>

record http_response =
  status :: nat
  statusText :: string
  text_result :: "js_error + string"
  json_result :: "js_error + json"

text \<open>\<open>response.ok\<close>: the status is in the range 200 to 299.\<close>

definition ok :: "http_response \<Rightarrow> bool" where
  "ok r = (200 \<le> status r \<and> status r \<le> 299)"

text \<open>What \<open>GetSecretValueCommand\<close> gives: a response with or without \<open>SecretString\<close>, or a rejection.\<close>

datatype secret_reply = SecretValue "string option" | SecretThrows js_error

text \<open>The calls a handler makes to the outside, in order.\<close>

datatype effect =
    StoreGet string
  | StorePut TokenRecord
  | SecretFetch string
  | ProviderCall provider_request

text \<open>
  Everything a handler reads or changes: the clock (\<open>Date.now()\<close>, milliseconds), the
  tokens table and whether its client rejects a command, the secret store and the
  module-level \<open>secretsCache\<close>, the provider behind \<open>fetch\<close>, the next \<open>randomUUID()\<close>,
  \<open>JSON.parse\<close> (\<open>None\<close> is a \<open>SyntaxError\<close>), the environment variables, and the trace of
  outside calls made so far.
\<close>

record world =
  now_ms :: int
  table :: "string \<rightharpoonup> TokenRecord"
  get_rejects :: "js_error option"
  put_rejects :: "js_error option"
  secret_store :: "string \<Rightarrow> secret_reply"
  secretsCache :: "string \<rightharpoonup> string"
  fetch_reply :: "provider_request \<Rightarrow> js_error + http_response"
  randomUUID :: string
  JSON_parse :: "string \<Rightarrow> json option"
  TESTPORTAL_SECRET_NAME :: "string option"
  TESTPORTAL_API_URL :: "string option"
  trace :: "effect list"

definition emit :: "effect \<Rightarrow> world \<Rightarrow> world" where
  "emit e w = w\<lparr>trace := trace w @ [e]\<rparr>"

section \<open>tokens.ts\<close>

definition TOKEN_TTL_SECONDS :: int where
  "TOKEN_TTL_SECONDS = 15 * 60"

text \<open>\<open>Math.floor(Date.now() / 1000)\<close>.\<close>

definition nowSeconds :: "world \<Rightarrow> int" where
  "nowSeconds w = now_ms w div 1000"

text \<open>\<open>randomUUID().replace(/-/g, '')\<close>.\<close>

definition generateToken :: "world \<Rightarrow> string" where
  "generateToken w = filter (\<lambda>c. c \<noteq> CHR ''-'') (randomUUID w)"

text \<open>
  \<open>storeToken\<close>: the \<open>PutCommand\<close> (which may reject, and then nothing is written), then the
  log line, whose \<open>toISOString\<close> may throw.
\<close>

definition storeToken :: "string \<Rightarrow> world \<Rightarrow> (js_error + unit) \<times> world" where
  "storeToken tok w =
     (let now = nowSeconds w;
          expires = now + TOKEN_TTL_SECONDS;
          item = \<lparr>token = tok, ttl = Num expires, createdAt = Num now\<rparr>;
          w1 = emit (StorePut item) w
      in case put_rejects w1 of
           Some e \<Rightarrow> (Inl e, w1)
         | None \<Rightarrow>
             (let w2 = w1\<lparr>table := (table w1)(tok \<mapsto> item)\<rparr>
              in case toISOString (js_times (Num expires) 1000) of
                   Inl e \<Rightarrow> (Inl e, w2)
                 | Inr u \<Rightarrow> (Inr (), w2)))"

text \<open>The body of the \<open>try\<close> block of \<open>validateToken\<close>, for a token that passed the format check.\<close>

definition validateToken_try :: "string \<Rightarrow> world \<Rightarrow> (js_error + bool) \<times> world" where
  "validateToken_try tok w =
     (let w1 = emit (StoreGet tok) w
      in case get_rejects w1 of
           Some e \<Rightarrow> (Inl e, w1)
         | None \<Rightarrow>
             (case table w1 tok of
                None \<Rightarrow> (Inr False, w1)
              | Some r \<Rightarrow>
                  (let now = nowSeconds w1
                   in if js_less (ttl r) (Num now) then
                        (case toISOString (js_times (ttl r) 1000) of
                           Inl e \<Rightarrow> (Inl e, w1)
                         | Inr u \<Rightarrow> (Inr False, w1))
                      else
                        (case toISOString (js_times (createdAt r) 1000) of
                           Inl e \<Rightarrow> (Inl e, w1)
                         | Inr u \<Rightarrow>
                             (case toISOString (js_times (ttl r) 1000) of
                                Inl e \<Rightarrow> (Inl e, w1)
                              | Inr u \<Rightarrow> (Inr True, w1))))))"

text \<open>
  \<open>validateToken\<close>: the format check, then the \<open>try\<close> block, whose \<open>catch\<close> turns every
  thrown value into \<open>false\<close>. The argument is any value: TypeScript's \<open>string\<close> is not
  checked at run time.
\<close>

definition validateToken :: "json option \<Rightarrow> world \<Rightarrow> (js_error + bool) \<times> world" where
  "validateToken tokv w =
     (if \<not> truthy tokv \<or> \<not> typeof_string tokv then (Inr False, w)
      else case tokv of
             Some (JStr tok) \<Rightarrow>
               (case validateToken_try tok w of
                  (Inl e, w1) \<Rightarrow> (Inr False, w1)
                | (Inr b, w1) \<Rightarrow> (Inr b, w1))
           | _ \<Rightarrow> (Inr False, w))"

section \<open>secrets.ts\<close>

text \<open>
  \<open>getSecret\<close>: a cached value is returned without a call; otherwise one
  \<open>GetSecretValueCommand\<close>, whose non-empty \<open>SecretString\<close> is cached and returned. Every
  rejection is caught and gives \<open>null\<close>.
\<close>

definition getSecret :: "string \<Rightarrow> world \<Rightarrow> (js_error + string option) \<times> world" where
  "getSecret secretName w =
     (case secretsCache w secretName of
        Some v \<Rightarrow> (Inr (Some v), w)
      | None \<Rightarrow>
          (let w1 = emit (SecretFetch secretName) w
           in case secret_store w1 secretName of
                SecretThrows e \<Rightarrow>
                  (if error_name e = Some ''ResourceNotFoundException'' then (Inr None, w1)
                   else (Inr None, w1))
              | SecretValue None \<Rightarrow> (Inr None, w1)
              | SecretValue (Some secretValue) \<Rightarrow>
                  (if secretValue = [] then (Inr None, w1)
                   else (Inr (Some secretValue),
                         w1\<lparr>secretsCache := (secretsCache w1)(secretName \<mapsto> secretValue)\<rparr>))))"

text \<open>
  \<open>getTestPortalApiKey\<close>: the secret named by the environment, read as JSON with an
  \<open>apiKey\<close> or \<open>api_key\<close> field, or as plain text when it is not JSON (or when the read of
  the field throws, for the JSON text \<open>null\<close>).
\<close>

definition getTestPortalApiKey :: "world \<Rightarrow> (js_error + json option) \<times> world" where
  "getTestPortalApiKey w =
     (case TESTPORTAL_SECRET_NAME w of
        None \<Rightarrow> (Inr None, w)
      | Some secretName \<Rightarrow>
          (if secretName = [] then (Inr None, w)
           else case getSecret secretName w of
                  (Inl e, w1) \<Rightarrow> (Inl e, w1)
                | (Inr None, w1) \<Rightarrow> (Inr None, w1)
                | (Inr (Some secretValue), w1) \<Rightarrow>
                    (if secretValue = [] then (Inr None, w1)
                     else case JSON_parse w1 secretValue of
                            None \<Rightarrow> (Inr (Some (JStr secretValue)), w1)
                          | Some parsed \<Rightarrow>
                              (case get_prop (Some parsed) ''apiKey'' of
                                 Inl e \<Rightarrow> (Inr (Some (JStr secretValue)), w1)
                               | Inr a \<Rightarrow>
                                   (case get_prop (Some parsed) ''api_key'' of
                                      Inl e \<Rightarrow> (Inr (Some (JStr secretValue)), w1)
                                    | Inr b \<Rightarrow>
                                        (Inr (js_or a (js_or b (Some (JStr secretValue)))), w1))))))"

section \<open>testportal.ts\<close>

definition MOCK_ACCESS_CODE :: string where
  "MOCK_ACCESS_CODE = ''ABC123MOCK''"

text \<open>\<open>process.env.TESTPORTAL_API_URL || 'https://www.testportal.com/api/v1'\<close>.\<close>

definition api_url :: "world \<Rightarrow> string" where
  "api_url w =
     (case TESTPORTAL_API_URL w of
        None \<Rightarrow> ''https://www.testportal.com/api/v1''
      | Some u \<Rightarrow> if u = [] then ''https://www.testportal.com/api/v1'' else u)"

record AccessCodeResult =
  success :: bool
  accessCode :: "string option"
  error :: "string option"
  isDevelopmentMode :: "bool option"

definition failure :: "string \<Rightarrow> AccessCodeResult" where
  "failure msg = \<lparr>success = False, accessCode = None, error = Some msg, isDevelopmentMode = None\<rparr>"

text \<open>The request of \<open>requestAccessCode\<close>: the test id in the path, the key in a header, a fixed body.\<close>

definition access_code_request :: "string \<Rightarrow> json \<Rightarrow> world \<Rightarrow> provider_request" where
  "access_code_request testId apiKey w =
     \<lparr>req_url = api_url w @ ''/manager/me/tests/'' @ testId @ ''/current-date/access-codes/add'',
      req_method = ''POST'',
      req_content_type = ''application/json'',
      req_api_key = apiKey,
      req_body = JObj [(''count'', JNum 1), (''sendInvitationOnTestActivation'', JBool False)]\<rparr>"

text \<open>
  The body of the \<open>try\<close> block of \<open>requestAccessCode\<close>. The last step is the log line's
  \<open>accessCode.substring(0, 4)\<close>, a \<open>TypeError\<close> when the code found is not a string.
\<close>

definition requestAccessCode_try ::
  "string \<Rightarrow> json \<Rightarrow> world \<Rightarrow> (js_error + AccessCodeResult) \<times> world" where
  "requestAccessCode_try testId apiKey w =
     (let req = access_code_request testId apiKey w;
          w1 = emit (ProviderCall req) w
      in case fetch_reply w1 req of
           Inl e \<Rightarrow> (Inl e, w1)
         | Inr response \<Rightarrow>
             (if \<not> ok response then
                (case text_result response of
                   Inl e \<Rightarrow> (Inl e, w1)
                 | Inr errorText \<Rightarrow>
                     (Inr (failure (''TestPortal API returned '' @ string_of_nat (status response)
                                     @ '': '' @ statusText response)), w1))
              else
                (case json_result response of
                   Inl e \<Rightarrow> (Inl e, w1)
                 | Inr data \<Rightarrow>
                     (case get_prop (Some data) ''accessCodes'' of
                        Inl e \<Rightarrow> (Inl e, w1)
                      | Inr accessCodes \<Rightarrow>
                          (let accessCodeEntry = opt_index0 accessCodes;
                               code = js_or (opt_prop accessCodeEntry ''accessCode'')
                                        (js_or (opt_prop accessCodeEntry ''access_code'')
                                               (opt_prop accessCodeEntry ''code''))
                           in if \<not> truthy code then
                                (Inr (failure ''TestPortal API response did not contain an access code''), w1)
                              else
                                (case code of
                                   Some (JStr s) \<Rightarrow>
                                     (Inr \<lparr>success = True, accessCode = Some s, error = None,
                                           isDevelopmentMode = None\<rparr>, w1)
                                 | _ \<Rightarrow>
                                     (Inl (JsError ''TypeError'' ''accessCode.substring is not a function''),
                                      w1)))))))"

text \<open>\<open>error instanceof Error ? error.message : 'Unknown error occurred'\<close>.\<close>

definition catch_message :: "js_error \<Rightarrow> string" where
  "catch_message e = (case error_message e of Some m \<Rightarrow> m | None \<Rightarrow> ''Unknown error occurred'')"

definition development_mode :: AccessCodeResult where
  "development_mode =
     \<lparr>success = True, accessCode = Some MOCK_ACCESS_CODE, error = None,
      isDevelopmentMode = Some True\<rparr>"

text \<open>
  \<open>requestAccessCode\<close>: without a key (\<open>!apiKey\<close>: \<open>null\<close>, or a falsy value) the mock code;
  with one, the \<open>try\<close> block, whose \<open>catch\<close> turns a thrown value into a failure result.
\<close>

definition requestAccessCode :: "string \<Rightarrow> world \<Rightarrow> (js_error + AccessCodeResult) \<times> world" where
  "requestAccessCode testId w =
     (case getTestPortalApiKey w of
        (Inl e, w1) \<Rightarrow> (Inl e, w1)
      | (Inr None, w1) \<Rightarrow> (Inr development_mode, w1)
      | (Inr (Some apiKey), w1) \<Rightarrow>
          (if \<not> truthy (Some apiKey) then (Inr development_mode, w1)
           else case requestAccessCode_try testId apiKey w1 of
                  (Inl e, w2) \<Rightarrow> (Inr (failure (catch_message e)), w2)
                | (Inr result, w2) \<Rightarrow> (Inr result, w2)))"

section \<open>The handlers\<close>

text \<open>
  The event of API Gateway, as far as the handlers read it, and the result they return.
  \<open>resp_body\<close> is the value given to \<open>JSON.stringify\<close> (which drops the properties that
  are \<open>undefined\<close>); \<open>None\<close> is the empty body of the preflight reply.
\<close>

record APIGatewayProxyEvent =
  httpMethod :: string
  headers :: "string \<rightharpoonup> string"
  body :: "string option"

record APIGatewayProxyResult =
  statusCode :: nat
  resp_headers :: "(string \<times> string) list"
  resp_body :: "json option"

definition ALLOWED_ORIGIN :: string where
  "ALLOWED_ORIGIN = ''https://my.icecampus.com''"

definition corsHeaders :: "(string \<times> string) list" where
  "corsHeaders =
     [(''Access-Control-Allow-Origin'', ALLOWED_ORIGIN),
      (''Access-Control-Allow-Methods'', ''POST,OPTIONS''),
      (''Access-Control-Allow-Headers'', ''Content-Type'')]"

definition createResponse :: "nat \<Rightarrow> (string \<times> json) list \<Rightarrow> APIGatewayProxyResult" where
  "createResponse code props =
     \<lparr>statusCode = code, resp_headers = corsHeaders, resp_body = Some (JObj props)\<rparr>"

text \<open>\<open>event.headers?.origin || event.headers?.Origin\<close>.\<close>

definition originHeader :: "APIGatewayProxyEvent \<Rightarrow> string option" where
  "originHeader event =
     (case headers event ''origin'' of
        Some v \<Rightarrow> if v = [] then headers event ''Origin'' else Some v
      | None \<Rightarrow> headers event ''Origin'')"

text \<open>\<open>event.body ? JSON.parse(event.body) : null\<close>; \<open>None\<close> is the \<open>SyntaxError\<close> of \<open>JSON.parse\<close>.\<close>

definition parse_body :: "APIGatewayProxyEvent \<Rightarrow> world \<Rightarrow> json option" where
  "parse_body event w =
     (case body event of
        None \<Rightarrow> Some JNull
      | Some b \<Rightarrow> if b = [] then Some JNull else JSON_parse w b)"

text \<open>\<open>typeof v === 'string' && v.length > 0\<close>.\<close>

fun nonempty_string :: "json option \<Rightarrow> bool" where
  "nonempty_string (Some (JStr s)) = (0 < length s)"
| "nonempty_string v = False"

definition validateRequestBody :: "json option \<Rightarrow> js_error + bool" where
  "validateRequestBody b =
     (if \<not> truthy b \<or> \<not> typeof_object b then Inr False
      else case get_prop b ''token'' of
             Inl e \<Rightarrow> Inl e
           | Inr tokenv \<Rightarrow>
               (case get_prop b ''testId'' of
                  Inl e \<Rightarrow> Inl e
                | Inr testIdv \<Rightarrow> Inr (nonempty_string tokenv \<and> nonempty_string testIdv)))"

text \<open>The string held by a value that the type guard has shown to be a string.\<close>

fun string_value :: "json option \<Rightarrow> string" where
  "string_value (Some (JStr s)) = s"
| "string_value v = []"

text \<open>The handler of \<open>getAccessCode.ts\<close>.\<close>

definition getAccessCode_handler ::
  "APIGatewayProxyEvent \<Rightarrow> world \<Rightarrow> (js_error + APIGatewayProxyResult) \<times> world" where
  "getAccessCode_handler event w =
     (if httpMethod event = ''OPTIONS'' then
        (Inr \<lparr>statusCode = 204, resp_headers = corsHeaders, resp_body = None\<rparr>, w)
      else if httpMethod event \<noteq> ''POST'' then
        (Inr (createResponse 405 [(''message'', JStr ''Method not allowed'')]), w)
      else if originHeader event \<noteq> Some ALLOWED_ORIGIN then
        (Inr (createResponse 403 [(''message'', JStr ''Forbidden'')]), w)
      else case parse_body event w of
        None \<Rightarrow> (Inr (createResponse 400 [(''message'', JStr ''Invalid JSON in request body'')]), w)
      | Some requestBody \<Rightarrow>
          (case validateRequestBody (Some requestBody) of
             Inl e \<Rightarrow> (Inl e, w)
           | Inr valid \<Rightarrow>
               (if \<not> valid then
                  (Inr (createResponse 400
                     [(''message'', JStr ''Missing required fields: token and testId are required'')]), w)
                else
                  (let tokenv = opt_prop (Some requestBody) ''token'';
                       testId = string_value (opt_prop (Some requestBody) ''testId'')
                   in case validateToken tokenv w of
                        (Inl e, w1) \<Rightarrow> (Inl e, w1)
                      | (Inr isValidToken, w1) \<Rightarrow>
                          (if \<not> isValidToken then
                             (Inr (createResponse 401 [(''message'', JStr ''Invalid or expired token'')]), w1)
                           else case requestAccessCode testId w1 of
                                  (Inl e, w2) \<Rightarrow> (Inl e, w2)
                                | (Inr result, w2) \<Rightarrow>
                                    (if \<not> success result then
                                       (Inr (createResponse 502
                                          ((''message'', JStr ''Failed to retrieve access code from TestPortal'')
                                           # (case error result of
                                                Some m \<Rightarrow> [(''error'', JStr m)]
                                              | None \<Rightarrow> []))), w2)
                                     else
                                       (Inr (createResponse 200
                                          ((case accessCode result of
                                              Some c \<Rightarrow> [(''accessCode'', JStr c)]
                                            | None \<Rightarrow> [])
                                           @ (if isDevelopmentMode result = Some True
                                              then [(''_dev'', JBool True)] else []))), w2)))))))"

text \<open>
  The handler of \<open>requestToken.ts\<close>. Its \<open>catch\<close> answers 500 with
  \<open>error instanceof Error ? error.message : 'Unknown error'\<close>.
\<close>

definition requestToken_handler ::
  "APIGatewayProxyEvent \<Rightarrow> world \<Rightarrow> (js_error + APIGatewayProxyResult) \<times> world" where
  "requestToken_handler event w =
     (if httpMethod event = ''OPTIONS'' then
        (Inr \<lparr>statusCode = 204, resp_headers = corsHeaders, resp_body = None\<rparr>, w)
      else if httpMethod event \<noteq> ''POST'' then
        (Inr (createResponse 405 [(''message'', JStr ''Method not allowed'')]), w)
      else if originHeader event \<noteq> Some ALLOWED_ORIGIN then
        (Inr (createResponse 403 [(''message'', JStr ''Forbidden'')]), w)
      else
        (let tok = generateToken w
         in case storeToken tok w of
              (Inl e, w1) \<Rightarrow>
                (Inr (createResponse 500
                   [(''message'', JStr ''Internal server error''),
                    (''error'', JStr (case error_message e of
                                        Some m \<Rightarrow> m
                                      | None \<Rightarrow> ''Unknown error''))]), w1)
            | (Inr u, w1) \<Rightarrow> (Inr (createResponse 200 [(''token'', JStr tok)]), w1)))"


section \<open>Notions used to state the properties\<close>

text \<open>The kinds of outside call in a trace.\<close>

fun is_provider_call :: "effect \<Rightarrow> bool" where
  "is_provider_call (ProviderCall r) = True"
| "is_provider_call e = False"

fun is_store_write :: "effect \<Rightarrow> bool" where
  "is_store_write (StorePut r) = True"
| "is_store_write e = False"

text \<open>The outside calls made between the world \<open>w\<close> and the later world \<open>w'\<close>.\<close>

definition new_effects :: "world \<Rightarrow> world \<Rightarrow> effect list" where
  "new_effects w w' = drop (length (trace w)) (trace w')"

text \<open>
  The same token validated several times in a row, the call number \<open>i\<close> at the clock time
  \<open>ts ! i\<close>; each call starts in the world the previous one left.
\<close>

fun validate_run :: "json option \<Rightarrow> int list \<Rightarrow> world \<Rightarrow> (js_error + bool) list \<times> world" where
  "validate_run tokv [] w = ([], w)"
| "validate_run tokv (t # ts) w =
     (case validateToken tokv (w\<lparr>now_ms := t\<rparr>) of
        (r, w1) \<Rightarrow> (case validate_run tokv ts w1 of (rs, w2) \<Rightarrow> (r # rs, w2)))"


text \<open>
  The worlds a deployment can be in: it starts with an empty table and an empty trace;
  the two handlers run on any events; and between the runs the outside changes as it
  likes (the clock, the secrets, the failures of the store and of the provider), except
  that it makes no call of the handlers' own and adds no record to the table: the store
  only drops records, as its expiry does.
\<close>

inductive reachable :: "world \<Rightarrow> bool" where
  start: "table w = Map.empty \<Longrightarrow> trace w = [] \<Longrightarrow> reachable w"
| issue: "reachable w \<Longrightarrow> reachable (snd (requestToken_handler ev w))"
| exchange: "reachable w \<Longrightarrow> reachable (snd (getAccessCode_handler ev w))"
| outside: "reachable w \<Longrightarrow> trace w' = trace w \<Longrightarrow>
            (\<forall>k. table w' k = None \<or> table w' k = table w k) \<Longrightarrow> reachable w'"

text \<open>The tokens issued so far: those of the records the issuer has sent to the store.\<close>

fun issued_tokens :: "effect list \<Rightarrow> string list" where
  "issued_tokens [] = []"
| "issued_tokens (StorePut r # es) = token r # issued_tokens es"
| "issued_tokens (e # es) = issued_tokens es"

text \<open>
  A deployment without a provider key, used to run the handlers on concrete requests: the
  secret does not exist, the table is empty, the provider is unreachable.
\<close>

definition dq :: string where
  "dq = [CHR 0x22]"

definition example_token :: string where
  "example_token = ''123e4567e89b42d3a456426614174000''"

definition example_body :: string where
  "example_body =
     ''{'' @ dq @ ''token'' @ dq @ '':'' @ dq @ example_token @ dq @ '',''
       @ dq @ ''testId'' @ dq @ '':'' @ dq @ ''t1'' @ dq @ ''}''"

definition example_body_email :: string where
  "example_body_email =
     ''{'' @ dq @ ''token'' @ dq @ '':'' @ dq @ example_token @ dq @ '',''
       @ dq @ ''testId'' @ dq @ '':'' @ dq @ ''t1'' @ dq @ '',''
       @ dq @ ''email'' @ dq @ '':'' @ dq @ ''a@b.c'' @ dq @ ''}''"

definition example_body_no_test :: string where
  "example_body_no_test =
     ''{'' @ dq @ ''token'' @ dq @ '':'' @ dq @ example_token @ dq @ ''}''"

definition example_parse :: "string \<Rightarrow> json option" where
  "example_parse s =
     (if s = example_body then
        Some (JObj [(''token'', JStr example_token), (''testId'', JStr ''t1'')])
      else if s = example_body_email then
        Some (JObj [(''token'', JStr example_token), (''testId'', JStr ''t1''),
                    (''email'', JStr ''a@b.c'')])
      else if s = example_body_no_test then
        Some (JObj [(''token'', JStr example_token)])
      else None)"

definition example_world :: world where
  "example_world =
     \<lparr>now_ms = 1700000000000,
      table = Map.empty,
      get_rejects = None,
      put_rejects = None,
      secret_store = (\<lambda>n. SecretThrows (JsError ''ResourceNotFoundException'' ''not found'')),
      secretsCache = Map.empty,
      fetch_reply = (\<lambda>r. Inl (JsError ''TypeError'' ''fetch failed'')),
      randomUUID = ''123e4567-e89b-42d3-a456-426614174000'',
      JSON_parse = example_parse,
      TESTPORTAL_SECRET_NAME = Some ''ice-testportal/testportal-api-key/dev'',
      TESTPORTAL_API_URL = None,
      trace = []\<rparr>"

definition example_record :: TokenRecord where
  "example_record =
     \<lparr>token = example_token, ttl = Num 1700000900, createdAt = Num 1700000000\<rparr>"

text \<open>The same deployment after the example token was issued at the time of \<open>example_world\<close>.\<close>

definition issued_world :: world where
  "issued_world = example_world\<lparr>table := [example_token \<mapsto> example_record]\<rparr>"

text \<open>
  A deployment with the provider key \<open>old-key\<close> in the secret store, and one whose provider
  answers every request with the status 500.
\<close>

definition keyed_world :: world where
  "keyed_world = issued_world\<lparr>secret_store := (\<lambda>n. SecretValue (Some ''old-key''))\<rparr>"

definition failing_provider_world :: world where
  "failing_provider_world =
     keyed_world\<lparr>fetch_reply := (\<lambda>r. Inr \<lparr>status = 500, statusText = ''Internal Server Error'',
        text_result = Inr ''upstream error'',
        json_result = Inl (JsError ''SyntaxError'' ''Unexpected token'')\<rparr>)\<rparr>"

definition example_event :: "string \<Rightarrow> APIGatewayProxyEvent" where
  "example_event b =
     \<lparr>httpMethod = ''POST'', headers = [''origin'' \<mapsto> ALLOWED_ORIGIN], body = Some b\<rparr>"

section \<open>Properties of the validator\<close>

lemma emit_fields [simp]:
  "now_ms (emit e w) = now_ms w"
  "table (emit e w) = table w"
  "get_rejects (emit e w) = get_rejects w"
  "put_rejects (emit e w) = put_rejects w"
  "secret_store (emit e w) = secret_store w"
  "secretsCache (emit e w) = secretsCache w"
  "fetch_reply (emit e w) = fetch_reply w"
  "randomUUID (emit e w) = randomUUID w"
  "JSON_parse (emit e w) = JSON_parse w"
  "TESTPORTAL_SECRET_NAME (emit e w) = TESTPORTAL_SECRET_NAME w"
  "TESTPORTAL_API_URL (emit e w) = TESTPORTAL_API_URL w"
  "trace (emit e w) = trace w @ [e]"
  by (simp_all add: emit_def)

lemma nowSeconds_emit [simp]: "nowSeconds (emit e w) = nowSeconds w"
  by (simp add: nowSeconds_def)

lemma validateToken_try_world:
  "snd (validateToken_try tok w) = emit (StoreGet tok) w"
  by (simp add: validateToken_try_def Let_def split: option.splits sum.splits)

lemma format_check: "(\<not> truthy tokv \<or> \<not> typeof_string tokv) = (\<not> nonempty_string tokv)"
  by (cases tokv rule: nonempty_string.cases) auto

lemma nonempty_stringE:
  "nonempty_string v \<Longrightarrow> \<exists>s. v = Some (JStr s) \<and> s \<noteq> []"
  by (cases v rule: nonempty_string.cases) auto

lemma validateToken_reject: "\<not> nonempty_string tokv \<Longrightarrow> validateToken tokv w = (Inr False, w)"
  using format_check [of tokv] by (simp add: validateToken_def)

lemma validateToken_string:
  "tok \<noteq> [] \<Longrightarrow> validateToken (Some (JStr tok)) w =
     (case fst (validateToken_try tok w) of Inl e \<Rightarrow> Inr False | Inr b \<Rightarrow> Inr b,
      emit (StoreGet tok) w)"
  using validateToken_try_world [of tok w]
  by (cases "validateToken_try tok w") (auto simp: validateToken_def split: sum.splits)

lemma validateToken_world:
  "snd (validateToken tokv w) =
     (if nonempty_string tokv then emit (StoreGet (string_value tokv)) w else w)"
  by (auto simp: validateToken_reject validateToken_string dest!: nonempty_stringE)

lemma validateToken_returns: "\<exists>b. fst (validateToken tokv w) = Inr b"
proof (cases "nonempty_string tokv")
  case True
  then obtain tok where "tokv = Some (JStr tok)" "tok \<noteq> []"
    using nonempty_stringE by blast
  then show ?thesis
    by (cases "fst (validateToken_try tok w)") (auto simp: validateToken_string)
next
  case False
  then show ?thesis by (auto simp: validateToken_reject)
qed

text \<open>When the \<open>try\<close> block of the validator returns \<open>true\<close>.\<close>

lemma validateToken_try_True:
  "fst (validateToken_try tok w) = Inr True \<longleftrightarrow>
     (\<exists>r e c. get_rejects w = None \<and> table w tok = Some r \<and> ttl r = Num e \<and> createdAt r = Num c
        \<and> nowSeconds w \<le> e
        \<and> toISOString (Num (c * 1000)) = Inr () \<and> toISOString (Num (e * 1000)) = Inr ())"
proof (cases "get_rejects w")
  case (Some e)
  then show ?thesis by (simp add: validateToken_try_def)
next
  case None
  note g = this
  show ?thesis
  proof (cases "table w tok")
    case None
    with g show ?thesis by (simp add: validateToken_try_def)
  next
    case (Some r)
    show ?thesis
    proof (cases "ttl r")
      case NaN
      with g Some show ?thesis by (simp add: validateToken_try_def Let_def split: sum.splits)
    next
      case (Num e)
      note e = this
      show ?thesis
      proof (cases "createdAt r")
        case NaN
        with g Some e show ?thesis by (simp add: validateToken_try_def Let_def split: sum.splits)
      next
        case (Num c)
        with g Some e show ?thesis
          by (auto simp: validateToken_try_def Let_def split: sum.splits)
      qed
    qed
  qed
qed

lemma validateToken_True:
  "fst (validateToken tokv w) = Inr True \<longleftrightarrow>
     (\<exists>tok. tokv = Some (JStr tok) \<and> tok \<noteq> [] \<and> fst (validateToken_try tok w) = Inr True)"
proof (cases "nonempty_string tokv")
  case True
  then obtain tok where "tokv = Some (JStr tok)" "tok \<noteq> []"
    using nonempty_stringE by blast
  then show ?thesis
    by (cases "fst (validateToken_try tok w)") (simp_all add: validateToken_string)
next
  case False
  then have "\<not> (\<exists>tok. tokv = Some (JStr tok) \<and> tok \<noteq> [])" by auto
  with False show ?thesis by (auto simp: validateToken_reject)
qed

text \<open>
  C3: \<open>validateToken\<close> is total. For every input value and every state of the outside it
  returns a boolean and throws nothing. An empty or non-string input gives \<open>false\<close> and
  leaves the world as it was, trace included: no store lookup is made. A rejected lookup
  gives \<open>false\<close>, and so does a stored record whose \<open>ttl\<close> or \<open>createdAt\<close> is not a number.
\<close>

theorem validateToken_total:
  "(\<exists>b. fst (validateToken tokv w) = Inr b)
   \<and> (\<not> truthy tokv \<or> \<not> typeof_string tokv \<longrightarrow> validateToken tokv w = (Inr False, w))
   \<and> (get_rejects w \<noteq> None \<longrightarrow> fst (validateToken tokv w) = Inr False)
   \<and> (\<forall>tok r. tokv = Some (JStr tok) \<and> table w tok = Some r \<and> (ttl r = NaN \<or> createdAt r = NaN)
        \<longrightarrow> fst (validateToken tokv w) = Inr False)"
proof (intro conjI impI allI)
  show "\<exists>b. fst (validateToken tokv w) = Inr b"
    by (rule validateToken_returns)
next
  assume "\<not> truthy tokv \<or> \<not> typeof_string tokv"
  then show "validateToken tokv w = (Inr False, w)"
    by (simp add: validateToken_def)
next
  assume "get_rejects w \<noteq> None"
  then have "fst (validateToken tokv w) \<noteq> Inr True"
    by (auto simp: validateToken_True validateToken_try_True)
  with validateToken_returns [of tokv w] show "fst (validateToken tokv w) = Inr False"
    by auto
next
  fix tok r
  assume "tokv = Some (JStr tok) \<and> table w tok = Some r \<and> (ttl r = NaN \<or> createdAt r = NaN)"
  then have "fst (validateToken tokv w) \<noteq> Inr True"
    by (auto simp: validateToken_True validateToken_try_True)
  with validateToken_returns [of tokv w] show "fst (validateToken tokv w) = Inr False"
    by auto
qed

theorem validateToken_total_witness:
  "validateToken (Some (JStr [])) example_world = (Inr False, example_world)
   \<and> validateToken (Some (JNum 7)) example_world = (Inr False, example_world)
   \<and> fst (validateToken (Some (JStr example_token))
            (issued_world\<lparr>get_rejects := Some (JsError ''TimeoutError'' ''store unreachable'')\<rparr>))
       = Inr False
   \<and> fst (validateToken (Some (JStr example_token))
            (example_world\<lparr>table := [example_token \<mapsto>
               \<lparr>token = example_token, ttl = NaN, createdAt = Num 1700000000\<rparr>]\<rparr>))
       = Inr False"
  using validateToken_total [of "Some (JStr [])" example_world]
        validateToken_total [of "Some (JNum 7)" example_world]
        validateToken_total [of "Some (JStr example_token)"
          "issued_world\<lparr>get_rejects := Some (JsError ''TimeoutError'' ''store unreachable'')\<rparr>"]
        validateToken_total [of "Some (JStr example_token)"
          "example_world\<lparr>table := [example_token \<mapsto>
               \<lparr>token = example_token, ttl = NaN, createdAt = Num 1700000000\<rparr>]\<rparr>"]
  by simp


lemma validateToken_False:
  "fst (validateToken tokv w) \<noteq> Inr True \<Longrightarrow> fst (validateToken tokv w) = Inr False"
  using validateToken_returns [of tokv w] by auto

lemma validateToken_cong:
  assumes "table w' = table w" "get_rejects w' = get_rejects w" "nowSeconds w' = nowSeconds w"
  shows "fst (validateToken tokv w') = fst (validateToken tokv w)"
proof -
  have "(fst (validateToken tokv w') = Inr True) = (fst (validateToken tokv w) = Inr True)"
    by (simp add: validateToken_True validateToken_try_True assms)
  then show ?thesis
    using validateToken_returns [of tokv w] validateToken_returns [of tokv w'] by auto
qed

lemma storeToken_ok:
  "storeToken tok w0 = (Inr u, w1) \<Longrightarrow>
     table w1 tok = Some \<lparr>token = tok, ttl = Num (nowSeconds w0 + 900), createdAt = Num (nowSeconds w0)\<rparr>"
  by (auto simp: storeToken_def Let_def TOKEN_TTL_SECONDS_def split: option.splits sum.splits if_splits)

lemma validateToken_keeps:
  "table (snd (validateToken tokv w)) = table w"
  "get_rejects (snd (validateToken tokv w)) = get_rejects w"
  by (simp_all add: validateToken_world)

lemma validate_run_results:
  "fst (validate_run tokv ts w) = map (\<lambda>t. fst (validateToken tokv (w\<lparr>now_ms := t\<rparr>))) ts
   \<and> table (snd (validate_run tokv ts w)) = table w
   \<and> get_rejects (snd (validate_run tokv ts w)) = get_rejects w
   \<and> filter is_store_write (trace (snd (validate_run tokv ts w))) = filter is_store_write (trace w)"
proof (induction ts arbitrary: w)
  case Nil
  then show ?case by simp
next
  case (Cons t ts)
  obtain r w1 where v: "validateToken tokv (w\<lparr>now_ms := t\<rparr>) = (r, w1)"
    by (cases "validateToken tokv (w\<lparr>now_ms := t\<rparr>)")
  obtain rs w2 where run: "validate_run tokv ts w1 = (rs, w2)"
    by (cases "validate_run tokv ts w1")
  have w1: "w1 = snd (validateToken tokv (w\<lparr>now_ms := t\<rparr>))" "r = fst (validateToken tokv (w\<lparr>now_ms := t\<rparr>))"
    using v by simp_all
  have keep: "table w1 = table w" "get_rejects w1 = get_rejects w"
    by (simp_all add: w1 validateToken_keeps)
  have tr: "filter is_store_write (trace w1) = filter is_store_write (trace w)"
    by (simp add: w1 validateToken_world)
  have same: "fst (validateToken tokv (w1\<lparr>now_ms := u\<rparr>)) = fst (validateToken tokv (w\<lparr>now_ms := u\<rparr>))" for u
    by (rule validateToken_cong) (simp_all add: keep nowSeconds_def)
  from Cons.IH [of w1] run have
    "rs = map (\<lambda>t. fst (validateToken tokv (w1\<lparr>now_ms := t\<rparr>))) ts"
    "table w2 = table w1" "get_rejects w2 = get_rejects w1"
    "filter is_store_write (trace w2) = filter is_store_write (trace w1)"
    by simp_all
  moreover have "validate_run tokv (t # ts) w = (r # rs, w2)"
    using v run by simp
  ultimately show ?case
    by (simp add: same keep tr w1(2))
qed

text \<open>
  C4: validation consumes nothing. One call leaves the world as it was except for the
  trace, which gains the lookup; a run of calls writes nothing to the table; and when the
  token is valid at each of the times of the calls, every call of the run returns \<open>true\<close>.
\<close>

theorem validateToken_repeatable:
  "snd (validateToken tokv w) =
     (if nonempty_string tokv then emit (StoreGet (string_value tokv)) w else w)
   \<and> table (snd (validate_run tokv ts w)) = table w
   \<and> filter is_store_write (trace (snd (validate_run tokv ts w))) = filter is_store_write (trace w)
   \<and> ((\<forall>t \<in> set ts. fst (validateToken tokv (w\<lparr>now_ms := t\<rparr>)) = Inr True)
        \<longrightarrow> fst (validate_run tokv ts w) = replicate (length ts) (Inr True))"
proof (intro conjI impI)
  assume "\<forall>t \<in> set ts. fst (validateToken tokv (w\<lparr>now_ms := t\<rparr>)) = Inr True"
  then have "map (\<lambda>t. fst (validateToken tokv (w\<lparr>now_ms := t\<rparr>))) ts = replicate (length ts) (Inr True)"
    by (simp add: map_replicate_const [symmetric] cong: map_cong)
  then show "fst (validate_run tokv ts w) = replicate (length ts) (Inr True)"
    by (simp add: validate_run_results)
qed (simp_all add: validateToken_world validate_run_results)

theorem validateToken_repeatable_witness:
  "fst (validate_run (Some (JStr example_token)) [1700000000000, 1700000450000, 1700000900000] issued_world)
       = [Inr True, Inr True, Inr True]
   \<and> table (snd (validate_run (Some (JStr example_token)) [1700000000000, 1700000450000, 1700000900000] issued_world))
       = table issued_world"
proof -
  have h: "\<forall>t \<in> set [1700000000000, 1700000450000, 1700000900000].
      fst (validateToken (Some (JStr example_token)) (issued_world\<lparr>now_ms := t\<rparr>)) = Inr True"
    by (simp add: validateToken_True validateToken_try_True issued_world_def example_world_def
          example_token_def example_record_def nowSeconds_def)
  with validateToken_repeatable [of "Some (JStr example_token)" issued_world
         "[1700000000000, 1700000450000, 1700000900000]"]
  show ?thesis by (simp add: numeral_3_eq_3)
qed

section \<open>Properties of the exchange\<close>

lemma validateRequestBody_eq:
  "validateRequestBody b =
     Inr (nonempty_string (opt_prop b ''token'') \<and> nonempty_string (opt_prop b ''testId''))"
proof (cases b)
  case None
  then show ?thesis by (simp add: validateRequestBody_def)
next
  case (Some j)
  then show ?thesis by (cases j) (simp_all add: validateRequestBody_def)
qed

text \<open>The handler on a request that passed the method, origin and body checks.\<close>

lemma handler_accepted:
  assumes "httpMethod ev = ''POST''" "originHeader ev = Some ALLOWED_ORIGIN"
    and "parse_body ev w = Some b"
    and "opt_prop (Some b) ''token'' = Some (JStr tok)" "tok \<noteq> []"
    and "opt_prop (Some b) ''testId'' = Some (JStr tid)" "tid \<noteq> []"
  shows "getAccessCode_handler ev w =
     (case validateToken (Some (JStr tok)) w of
        (Inl e, w1) \<Rightarrow> (Inl e, w1)
      | (Inr isValidToken, w1) \<Rightarrow>
          (if \<not> isValidToken then
             (Inr (createResponse 401 [(''message'', JStr ''Invalid or expired token'')]), w1)
           else case requestAccessCode tid w1 of
                  (Inl e, w2) \<Rightarrow> (Inl e, w2)
                | (Inr result, w2) \<Rightarrow>
                    (if \<not> success result then
                       (Inr (createResponse 502
                          ((''message'', JStr ''Failed to retrieve access code from TestPortal'')
                           # (case error result of
                                Some m \<Rightarrow> [(''error'', JStr m)]
                              | None \<Rightarrow> []))), w2)
                     else
                       (Inr (createResponse 200
                          ((case accessCode result of
                              Some c \<Rightarrow> [(''accessCode'', JStr c)]
                            | None \<Rightarrow> [])
                           @ (if isDevelopmentMode result = Some True
                              then [(''_dev'', JBool True)] else []))), w2))))"
proof -
  have "httpMethod ev \<noteq> ''OPTIONS''" using assms(1) by simp
  then show ?thesis
    using assms by (simp add: getAccessCode_handler_def validateRequestBody_eq)
qed

lemma getSecret_returns: "\<exists>v. fst (getSecret n w) = Inr v"
  by (auto simp: getSecret_def Let_def split: option.splits secret_reply.splits)

lemma getSecret_emit: "fst (getSecret n (emit e w)) = fst (getSecret n w)"
  by (auto simp: getSecret_def Let_def split: option.splits secret_reply.splits)

lemma getSecret_JSON_parse: "JSON_parse (snd (getSecret n w)) = JSON_parse w"
  by (simp add: getSecret_def Let_def split: option.splits secret_reply.splits)

lemma getSecret_trace:
  "trace (snd (getSecret n w)) = trace w \<or> trace (snd (getSecret n w)) = trace w @ [SecretFetch n]"
  by (simp add: getSecret_def Let_def split: option.splits secret_reply.splits)

lemma getTestPortalApiKey_returns: "\<exists>k. fst (getTestPortalApiKey w) = Inr k"
proof (cases "TESTPORTAL_SECRET_NAME w")
  case None
  then show ?thesis by (simp add: getTestPortalApiKey_def)
next
  case (Some n)
  obtain v where "fst (getSecret n w) = Inr v" using getSecret_returns by blast
  then obtain w1 where "getSecret n w = (Inr v, w1)" by (cases "getSecret n w") simp
  with Some show ?thesis
    by (auto simp: getTestPortalApiKey_def split: option.splits sum.splits)
qed

lemma getTestPortalApiKey_snd:
  "snd (getTestPortalApiKey w) = w \<or>
   (\<exists>n. TESTPORTAL_SECRET_NAME w = Some n \<and> snd (getTestPortalApiKey w) = snd (getSecret n w))"
proof (cases "TESTPORTAL_SECRET_NAME w")
  case None
  then show ?thesis by (simp add: getTestPortalApiKey_def)
next
  case (Some n)
  then show ?thesis
    by (cases "getSecret n w")
       (auto simp: getTestPortalApiKey_def split: option.splits sum.splits)
qed

lemma getTestPortalApiKey_trace:
  "trace (snd (getTestPortalApiKey w)) = trace w \<or>
   (\<exists>n. trace (snd (getTestPortalApiKey w)) = trace w @ [SecretFetch n])"
  using getTestPortalApiKey_snd [of w] getSecret_trace by metis

lemma getTestPortalApiKey_emit:
  "fst (getTestPortalApiKey (emit e w)) = fst (getTestPortalApiKey w)"
proof (cases "TESTPORTAL_SECRET_NAME w")
  case None
  then show ?thesis by (simp add: getTestPortalApiKey_def)
next
  case (Some n)
  obtain v w1 where a: "getSecret n w = (Inr v, w1)"
    using getSecret_returns [of n w] by (cases "getSecret n w") auto
  then obtain w2 where b: "getSecret n (emit e w) = (Inr v, w2)"
    using getSecret_emit [of n e w] by (cases "getSecret n (emit e w)") auto
  have "JSON_parse w1 = JSON_parse w" "JSON_parse w2 = JSON_parse w"
    using getSecret_JSON_parse [of n w] getSecret_JSON_parse [of n "emit e w"] a b by simp_all
  with Some a b show ?thesis
    by (simp add: getTestPortalApiKey_def split: option.splits sum.splits)
qed

lemma requestAccessCode_try_world:
  "snd (requestAccessCode_try tid k w) = emit (ProviderCall (access_code_request tid k w)) w"
  by (simp add: requestAccessCode_try_def Let_def split: sum.splits option.splits json.splits)

lemma requestAccessCode_returns: "\<exists>r. fst (requestAccessCode tid w) = Inr r"
proof -
  obtain k w1 where k: "getTestPortalApiKey w = (Inr k, w1)"
    using getTestPortalApiKey_returns [of w] by (cases "getTestPortalApiKey w") auto
  then show ?thesis
    by (cases k; cases "requestAccessCode_try tid (the k) w1")
       (auto simp: requestAccessCode_def split: sum.splits)
qed

text \<open>The handler throws nothing.\<close>

lemma getAccessCode_handler_returns: "\<exists>r. fst (getAccessCode_handler ev w) = Inr r"
proof -
  have v: "\<exists>b w1. validateToken t w = (Inr b, w1)" for t
    using validateToken_returns [of t w] by (cases "validateToken t w") auto
  have r: "\<exists>r w2. requestAccessCode tid w1 = (Inr r, w2)" for tid w1
    using requestAccessCode_returns [of tid w1] by (cases "requestAccessCode tid w1") auto
  show ?thesis
    unfolding getAccessCode_handler_def validateRequestBody_eq Let_def
    apply (simp split: option.splits)
    apply (intro conjI impI allI)
    subgoal for b
      using v [of "opt_prop (Some b) ''token''"] 
      apply clarsimp
      subgoal for vb w1
        using r [of "string_value (opt_prop (Some b) ''testId'')" w1]
        by auto
      done
    done
qed


text \<open>
  C6: an exchange request whose body is malformed performs no outside call at all: the
  world, trace included, is as before, so there is no store lookup and no provider call.
  If the request has passed the method and origin checks the reply is 400. Malformed is:
  not JSON, or a JSON value whose \<open>token\<close> or \<open>testId\<close> is missing, not a string, or the
  empty string (a body that is no object has neither).
\<close>

theorem exchange_bad_request:
  "(parse_body ev w = None \<longrightarrow>
      snd (getAccessCode_handler ev w) = w
      \<and> (httpMethod ev = ''POST'' \<and> originHeader ev = Some ALLOWED_ORIGIN \<longrightarrow>
           fst (getAccessCode_handler ev w) =
             Inr (createResponse 400 [(''message'', JStr ''Invalid JSON in request body'')])))
   \<and> (\<forall>b. parse_body ev w = Some b
         \<and> (\<not> nonempty_string (opt_prop (Some b) ''token'')
            \<or> \<not> nonempty_string (opt_prop (Some b) ''testId'')) \<longrightarrow>
      snd (getAccessCode_handler ev w) = w
      \<and> (httpMethod ev = ''POST'' \<and> originHeader ev = Some ALLOWED_ORIGIN \<longrightarrow>
           fst (getAccessCode_handler ev w) =
             Inr (createResponse 400
               [(''message'', JStr ''Missing required fields: token and testId are required'')])))"
  by (auto simp: getAccessCode_handler_def validateRequestBody_eq)

lemma example_parse_no_test:
  "example_parse example_body_no_test = Some (JObj [(''token'', JStr example_token)])"
  by (simp add: example_parse_def example_body_no_test_def example_body_def example_body_email_def)

theorem exchange_bad_request_witness:
  "getAccessCode_handler (example_event example_body_no_test) issued_world =
     (Inr (createResponse 400
        [(''message'', JStr ''Missing required fields: token and testId are required'')]),
      issued_world)
   \<and> getAccessCode_handler (example_event ''{'') issued_world =
     (Inr (createResponse 400 [(''message'', JStr ''Invalid JSON in request body'')]), issued_world)"
proof -
  have p1: "parse_body (example_event example_body_no_test) issued_world
              = Some (JObj [(''token'', JStr example_token)])"
    by (simp add: parse_body_def example_event_def issued_world_def example_world_def
          example_parse_no_test) (simp add: example_body_no_test_def)
  have p2: "parse_body (example_event ''{'') issued_world = None"
    by (simp add: parse_body_def example_event_def issued_world_def example_world_def
          example_parse_def example_body_def example_body_email_def example_body_no_test_def)
  have g: "httpMethod (example_event b) = ''POST''"
          "originHeader (example_event b) = Some ALLOWED_ORIGIN" for b
    by (simp_all add: example_event_def originHeader_def ALLOWED_ORIGIN_def)
  show ?thesis
    using exchange_bad_request [of "example_event example_body_no_test" issued_world]
          exchange_bad_request [of "example_event ''{''" issued_world]
    by (simp add: p1 p2 g prod_eq_iff)
qed

lemma new_effects_simps [simp]:
  "new_effects w w = []"
  "new_effects w (emit e w) = [e]"
  by (simp_all add: new_effects_def)

text \<open>The key that \<open>getTestPortalApiKey\<close> returns is never falsy.\<close>

lemma getTestPortalApiKey_truthy:
  assumes "fst (getTestPortalApiKey w) = Inr (Some k)"
  shows "truthy (Some k)"
proof (cases "TESTPORTAL_SECRET_NAME w")
  case None
  with assms show ?thesis by (simp add: getTestPortalApiKey_def)
next
  case (Some n)
  obtain v w1 where g: "getSecret n w = (Inr v, w1)"
    using getSecret_returns [of n w] by (cases "getSecret n w") auto
  from assms Some g show ?thesis
    by (auto simp: getTestPortalApiKey_def js_or_def split: option.splits sum.splits if_splits)
qed

lemma getSecret_fields:
  "TESTPORTAL_API_URL (snd (getSecret n w)) = TESTPORTAL_API_URL w"
  "fetch_reply (snd (getSecret n w)) = fetch_reply w"
  "table (snd (getSecret n w)) = table w"
  by (simp_all add: getSecret_def Let_def split: option.splits secret_reply.splits)

lemma getTestPortalApiKey_fields:
  "TESTPORTAL_API_URL (snd (getTestPortalApiKey w)) = TESTPORTAL_API_URL w"
  "fetch_reply (snd (getTestPortalApiKey w)) = fetch_reply w"
  "table (snd (getTestPortalApiKey w)) = table w"
  using getTestPortalApiKey_snd [of w] by (auto simp: getSecret_fields)

lemma access_code_request_key_world:
  "access_code_request tid k (snd (getTestPortalApiKey w)) = access_code_request tid k w"
  by (simp add: access_code_request_def api_url_def getTestPortalApiKey_fields)

lemma requestAccessCode_no_key:
  assumes "fst (getTestPortalApiKey w) = Inr None"
  shows "requestAccessCode tid w = (Inr development_mode, snd (getTestPortalApiKey w))"
  using assms by (cases "getTestPortalApiKey w") (simp add: requestAccessCode_def)

lemma requestAccessCode_key:
  assumes "fst (getTestPortalApiKey w) = Inr (Some k)"
  shows "requestAccessCode tid w =
     (case fst (requestAccessCode_try tid k (snd (getTestPortalApiKey w))) of
        Inl e \<Rightarrow> Inr (failure (catch_message e))
      | Inr result \<Rightarrow> Inr result,
      emit (ProviderCall (access_code_request tid k w)) (snd (getTestPortalApiKey w)))"
proof -
  obtain w1 where k: "getTestPortalApiKey w = (Inr (Some k), w1)"
    using assms by (cases "getTestPortalApiKey w") auto
  have t: "truthy (Some k)" using assms by (rule getTestPortalApiKey_truthy)
  have w1: "w1 = snd (getTestPortalApiKey w)" using k by simp
  have "snd (requestAccessCode_try tid k w1) = emit (ProviderCall (access_code_request tid k w)) w1"
    by (simp add: requestAccessCode_try_world w1 access_code_request_key_world)
  then show ?thesis
    using k t
    by (cases "requestAccessCode_try tid k w1")
       (auto simp: requestAccessCode_def split: sum.splits)
qed

text \<open>The outside calls of \<open>requestAccessCode\<close>: at most one secret fetch, then at most one provider call.\<close>

lemma requestAccessCode_effects:
  "\<exists>es. (es = [] \<or> (\<exists>n. es = [SecretFetch n]))
     \<and> (case fst (getTestPortalApiKey w) of
           Inr (Some k) \<Rightarrow>
             trace (snd (requestAccessCode tid w)) =
               trace w @ es @ [ProviderCall (access_code_request tid k w)]
         | _ \<Rightarrow> trace (snd (requestAccessCode tid w)) = trace w @ es)"
proof -
  obtain es where es: "trace (snd (getTestPortalApiKey w)) = trace w @ es"
      "es = [] \<or> (\<exists>n. es = [SecretFetch n])"
    using getTestPortalApiKey_trace [of w] by auto
  obtain k where k: "fst (getTestPortalApiKey w) = Inr k"
    using getTestPortalApiKey_returns by blast
  show ?thesis
  proof (cases k)
    case None
    with k es show ?thesis
      by (auto simp: requestAccessCode_no_key)
  next
    case (Some key)
    with k es show ?thesis
      by (auto simp: requestAccessCode_key)
  qed
qed

text \<open>A request is turned away before the validator is called, or it carries a token and a test id.\<close>

lemma handler_cases:
  "snd (getAccessCode_handler ev w) = w \<or>
   (\<exists>b tok tid. httpMethod ev = ''POST'' \<and> originHeader ev = Some ALLOWED_ORIGIN
      \<and> parse_body ev w = Some b
      \<and> opt_prop (Some b) ''token'' = Some (JStr tok) \<and> tok \<noteq> []
      \<and> opt_prop (Some b) ''testId'' = Some (JStr tid) \<and> tid \<noteq> [])"
proof (cases "httpMethod ev = ''POST'' \<and> originHeader ev = Some ALLOWED_ORIGIN")
  case False
  then show ?thesis by (auto simp: getAccessCode_handler_def)
next
  case True
  show ?thesis
  proof (cases "parse_body ev w")
    case None
    with True show ?thesis by (simp add: getAccessCode_handler_def)
  next
    case (Some b)
    show ?thesis
    proof (cases "nonempty_string (opt_prop (Some b) ''token'')
                  \<and> nonempty_string (opt_prop (Some b) ''testId'')")
      case False
      with True Some show ?thesis
        by (auto simp: getAccessCode_handler_def validateRequestBody_eq)
    next
      case v: True
      then obtain tok tid where
        "opt_prop (Some b) ''token'' = Some (JStr tok)" "tok \<noteq> []"
        "opt_prop (Some b) ''testId'' = Some (JStr tid)" "tid \<noteq> []"
        using nonempty_stringE by blast
      with True Some show ?thesis by blast
    qed
  qed
qed

text \<open>The outside calls of an accepted request, by the verdict of the validator.\<close>

lemma handler_accepted_invalid:
  assumes "httpMethod ev = ''POST''" "originHeader ev = Some ALLOWED_ORIGIN"
    and "parse_body ev w = Some b"
    and "opt_prop (Some b) ''token'' = Some (JStr tok)" "tok \<noteq> []"
    and "opt_prop (Some b) ''testId'' = Some (JStr tid)" "tid \<noteq> []"
    and "fst (validateToken (Some (JStr tok)) w) \<noteq> Inr True"
  shows "getAccessCode_handler ev w =
     (Inr (createResponse 401 [(''message'', JStr ''Invalid or expired token'')]),
      emit (StoreGet tok) w)"
proof -
  have "fst (validateToken (Some (JStr tok)) w) = Inr False"
    using assms(8) by (rule validateToken_False)
  then have "validateToken (Some (JStr tok)) w = (Inr False, emit (StoreGet tok) w)"
    using validateToken_world [of "Some (JStr tok)" w] assms(5)
    by (cases "validateToken (Some (JStr tok)) w") auto
  then show ?thesis
    using handler_accepted [OF assms(1-7)] by simp
qed

lemma handler_accepted_valid:
  assumes "httpMethod ev = ''POST''" "originHeader ev = Some ALLOWED_ORIGIN"
    and "parse_body ev w = Some b"
    and "opt_prop (Some b) ''token'' = Some (JStr tok)" "tok \<noteq> []"
    and "opt_prop (Some b) ''testId'' = Some (JStr tid)" "tid \<noteq> []"
    and "fst (validateToken (Some (JStr tok)) w) = Inr True"
  shows "getAccessCode_handler ev w =
     (case requestAccessCode tid (emit (StoreGet tok) w) of
        (Inl e, w2) \<Rightarrow> (Inl e, w2)
      | (Inr result, w2) \<Rightarrow>
          (if \<not> success result then
             (Inr (createResponse 502
                ((''message'', JStr ''Failed to retrieve access code from TestPortal'')
                 # (case error result of
                      Some m \<Rightarrow> [(''error'', JStr m)]
                    | None \<Rightarrow> []))), w2)
           else
             (Inr (createResponse 200
                ((case accessCode result of
                    Some c \<Rightarrow> [(''accessCode'', JStr c)]
                  | None \<Rightarrow> [])
                 @ (if isDevelopmentMode result = Some True
                    then [(''_dev'', JBool True)] else []))), w2)))"
proof -
  have "validateToken (Some (JStr tok)) w = (Inr True, emit (StoreGet tok) w)"
    using validateToken_world [of "Some (JStr tok)" w] assms(5,8)
    by (cases "validateToken (Some (JStr tok)) w") auto
  then show ?thesis
    using handler_accepted [OF assms(1-7)] by simp
qed

lemma handler_accepted_valid_world:
  assumes "httpMethod ev = ''POST''" "originHeader ev = Some ALLOWED_ORIGIN"
    and "parse_body ev w = Some b"
    and "opt_prop (Some b) ''token'' = Some (JStr tok)" "tok \<noteq> []"
    and "opt_prop (Some b) ''testId'' = Some (JStr tid)" "tid \<noteq> []"
    and "fst (validateToken (Some (JStr tok)) w) = Inr True"
  shows "snd (getAccessCode_handler ev w) = snd (requestAccessCode tid (emit (StoreGet tok) w))"
  using requestAccessCode_returns [of tid "emit (StoreGet tok) w"]
  by (cases "requestAccessCode tid (emit (StoreGet tok) w)")
     (auto simp: handler_accepted_valid [OF assms])

lemma handler_provider_call:
  assumes "ProviderCall r \<in> set (new_effects w (snd (getAccessCode_handler ev w)))"
  shows "\<exists>b tok tid k es. parse_body ev w = Some b
           \<and> opt_prop (Some b) ''token'' = Some (JStr tok)
           \<and> opt_prop (Some b) ''testId'' = Some (JStr tid)
           \<and> fst (validateToken (Some (JStr tok)) w) = Inr True
           \<and> fst (getTestPortalApiKey w) = Inr (Some k)
           \<and> r = access_code_request tid k w
           \<and> new_effects w (snd (getAccessCode_handler ev w)) = StoreGet tok # es @ [ProviderCall r]
           \<and> (es = [] \<or> (\<exists>n. es = [SecretFetch n]))"
proof -
  from assms have "snd (getAccessCode_handler ev w) \<noteq> w" by auto
  with handler_cases [of ev w] obtain b tok tid where
    acc: "httpMethod ev = ''POST''" "originHeader ev = Some ALLOWED_ORIGIN"
         "parse_body ev w = Some b"
         "opt_prop (Some b) ''token'' = Some (JStr tok)" "tok \<noteq> []"
         "opt_prop (Some b) ''testId'' = Some (JStr tid)" "tid \<noteq> []"
    by blast
  have valid: "fst (validateToken (Some (JStr tok)) w) = Inr True"
  proof (rule ccontr)
    assume "fst (validateToken (Some (JStr tok)) w) \<noteq> Inr True"
    then have "snd (getAccessCode_handler ev w) = emit (StoreGet tok) w"
      by (simp add: handler_accepted_invalid [OF acc])
    with assms show False by simp
  qed
  let ?w1 = "emit (StoreGet tok) w"
  have snd_eq: "snd (getAccessCode_handler ev w) = snd (requestAccessCode tid ?w1)"
    by (rule handler_accepted_valid_world [OF acc valid])
  have key_eq: "fst (getTestPortalApiKey ?w1) = fst (getTestPortalApiKey w)"
    by (rule getTestPortalApiKey_emit)
  have req_eq: "access_code_request tid k ?w1 = access_code_request tid k w" for k
    by (simp add: access_code_request_def api_url_def)
  obtain kv where kv: "fst (getTestPortalApiKey w) = Inr kv"
    using getTestPortalApiKey_returns by blast
  show ?thesis
  proof (cases kv)
    case None
    then obtain es where "es = [] \<or> (\<exists>n. es = [SecretFetch n])"
      and "trace (snd (requestAccessCode tid ?w1)) = trace ?w1 @ es"
      using requestAccessCode_effects [where w = ?w1 and tid = tid] kv by (auto simp: key_eq)
    then have "\<not> (\<exists>r. ProviderCall r \<in> set (new_effects w (snd (getAccessCode_handler ev w))))"
      by (auto simp: snd_eq new_effects_def)
    with assms show ?thesis by blast
  next
    case (Some k)
    then obtain es where es: "es = [] \<or> (\<exists>n. es = [SecretFetch n])"
      and "trace (snd (requestAccessCode tid ?w1)) =
             trace ?w1 @ es @ [ProviderCall (access_code_request tid k w)]"
      using requestAccessCode_effects [where w = ?w1 and tid = tid] kv
      by (auto simp: key_eq req_eq)
    then have ne: "new_effects w (snd (getAccessCode_handler ev w))
        = StoreGet tok # es @ [ProviderCall (access_code_request tid k w)]"
      by (simp add: snd_eq new_effects_def)
    with assms es have "r = access_code_request tid k w" by auto
    with ne es acc valid kv Some show ?thesis by blast
  qed
qed

text \<open>
  C1: the validator runs before any provider call. An accepted request whose token the
  validator rejects is answered 401 after the store lookup alone. And whenever a run of
  the handler contacts the provider, the validator has returned \<open>true\<close> for the token of
  the request, and the run is the store lookup, then at most a secret fetch, then that
  one provider call.
\<close>

theorem exchange_validates_before_provider:
  "(httpMethod ev = ''POST'' \<and> originHeader ev = Some ALLOWED_ORIGIN
      \<and> parse_body ev w = Some b
      \<and> opt_prop (Some b) ''token'' = Some (JStr tok) \<and> tok \<noteq> []
      \<and> opt_prop (Some b) ''testId'' = Some (JStr tid) \<and> tid \<noteq> []
      \<and> fst (validateToken (Some (JStr tok)) w) = Inr False
    \<longrightarrow> getAccessCode_handler ev w =
          (Inr (createResponse 401 [(''message'', JStr ''Invalid or expired token'')]),
           emit (StoreGet tok) w))
   \<and> (\<forall>r. ProviderCall r \<in> set (new_effects w (snd (getAccessCode_handler ev w)))
        \<longrightarrow> (\<exists>b tok es. parse_body ev w = Some b
               \<and> opt_prop (Some b) ''token'' = Some (JStr tok)
               \<and> fst (validateToken (Some (JStr tok)) w) = Inr True
               \<and> new_effects w (snd (getAccessCode_handler ev w))
                   = StoreGet tok # es @ [ProviderCall r]
               \<and> (es = [] \<or> (\<exists>n. es = [SecretFetch n]))))"
proof (intro conjI impI allI)
  assume a: "httpMethod ev = ''POST'' \<and> originHeader ev = Some ALLOWED_ORIGIN
      \<and> parse_body ev w = Some b
      \<and> opt_prop (Some b) ''token'' = Some (JStr tok) \<and> tok \<noteq> []
      \<and> opt_prop (Some b) ''testId'' = Some (JStr tid) \<and> tid \<noteq> []
      \<and> fst (validateToken (Some (JStr tok)) w) = Inr False"
  then have "fst (validateToken (Some (JStr tok)) w) \<noteq> Inr True" by simp
  with a show "getAccessCode_handler ev w =
          (Inr (createResponse 401 [(''message'', JStr ''Invalid or expired token'')]),
           emit (StoreGet tok) w)"
    using handler_accepted_invalid [of ev w b tok tid] by blast
next
  fix r
  assume "ProviderCall r \<in> set (new_effects w (snd (getAccessCode_handler ev w)))"
  from handler_provider_call [OF this]
  show "\<exists>b tok es. parse_body ev w = Some b
               \<and> opt_prop (Some b) ''token'' = Some (JStr tok)
               \<and> fst (validateToken (Some (JStr tok)) w) = Inr True
               \<and> new_effects w (snd (getAccessCode_handler ev w))
                   = StoreGet tok # es @ [ProviderCall r]
               \<and> (es = [] \<or> (\<exists>n. es = [SecretFetch n]))"
    by blast
qed

lemma example_event_accepted:
  "httpMethod (example_event b) = ''POST''"
  "originHeader (example_event b) = Some ALLOWED_ORIGIN"
  by (simp_all add: example_event_def originHeader_def ALLOWED_ORIGIN_def)

lemma example_parse_body:
  "example_parse example_body = Some (JObj [(''token'', JStr example_token), (''testId'', JStr ''t1'')])"
  by (simp add: example_parse_def)

lemma example_body_nonempty: "example_body \<noteq> []"
  by (simp add: example_body_def)

lemma parse_example_body:
  "JSON_parse w = example_parse \<Longrightarrow>
   parse_body (example_event example_body) w
     = Some (JObj [(''token'', JStr example_token), (''testId'', JStr ''t1'')])"
  by (simp add: parse_body_def example_event_def example_parse_body example_body_nonempty)

lemma example_token_nonempty: "example_token \<noteq> []"
  by (simp add: example_token_def)

theorem exchange_validates_before_provider_witness:
  "getAccessCode_handler (example_event example_body) example_world =
     (Inr (createResponse 401 [(''message'', JStr ''Invalid or expired token'')]),
      emit (StoreGet example_token) example_world)
   \<and> new_effects failing_provider_world
        (snd (getAccessCode_handler (example_event example_body) failing_provider_world))
      = [StoreGet example_token, SecretFetch ''ice-testportal/testportal-api-key/dev'',
         ProviderCall (access_code_request ''t1'' (JStr ''old-key'') failing_provider_world)]
   \<and> fst (validateToken (Some (JStr example_token)) failing_provider_world) = Inr True"
proof -
  let ?ev = "example_event example_body"
  let ?b = "JObj [(''token'', JStr example_token), (''testId'', JStr ''t1'')]"
  have p1: "parse_body ?ev example_world = Some ?b"
    by (rule parse_example_body) (simp add: example_world_def)
  have p2: "parse_body ?ev failing_provider_world = Some ?b"
    by (rule parse_example_body)
       (simp add: failing_provider_world_def keyed_world_def issued_world_def example_world_def)
  have v1: "fst (validateToken (Some (JStr example_token)) example_world) = Inr False"
    by code_simp
  have e2: "new_effects failing_provider_world (snd (getAccessCode_handler ?ev failing_provider_world))
      = [StoreGet example_token, SecretFetch ''ice-testportal/testportal-api-key/dev'',
         ProviderCall (access_code_request ''t1'' (JStr ''old-key'') failing_provider_world)]"
    by code_simp
  have first: "getAccessCode_handler ?ev example_world =
     (Inr (createResponse 401 [(''message'', JStr ''Invalid or expired token'')]),
      emit (StoreGet example_token) example_world)"
    using exchange_validates_before_provider [of ?ev example_world ?b example_token "''t1''"]
    by (simp add: example_event_accepted p1 v1 example_token_nonempty)
  have second: "fst (validateToken (Some (JStr example_token)) failing_provider_world) = Inr True"
    using exchange_validates_before_provider [of ?ev failing_provider_world ?b example_token "''t1''"]
    by (auto simp: e2 p2)
  from first e2 second show ?thesis by blast
qed










text \<open>
  C10: the exchange reads nothing of the body but \<open>token\<close> and \<open>testId\<close>. Two requests
  with the same method and origin whose bodies agree on these two fields get the same
  reply and leave the same world, whatever else the bodies hold; and a provider call of
  the handler carries the test id in its path, the key, and a fixed body, nothing else of
  the request.
\<close>

theorem exchange_reads_token_and_testId_only:
  "(httpMethod ev1 = httpMethod ev2 \<and> originHeader ev1 = originHeader ev2
      \<and> parse_body ev1 w = Some b1 \<and> parse_body ev2 w = Some b2
      \<and> opt_prop (Some b1) ''token'' = opt_prop (Some b2) ''token''
      \<and> opt_prop (Some b1) ''testId'' = opt_prop (Some b2) ''testId''
    \<longrightarrow> getAccessCode_handler ev1 w = getAccessCode_handler ev2 w)
   \<and> (\<forall>r. ProviderCall r \<in> set (new_effects w (snd (getAccessCode_handler ev1 w)))
        \<longrightarrow> (\<exists>b tid k. parse_body ev1 w = Some b
               \<and> opt_prop (Some b) ''testId'' = Some (JStr tid)
               \<and> fst (getTestPortalApiKey w) = Inr (Some k)
               \<and> r = \<lparr>req_url = api_url w @ ''/manager/me/tests/'' @ tid
                                   @ ''/current-date/access-codes/add'',
                        req_method = ''POST'',
                        req_content_type = ''application/json'',
                        req_api_key = k,
                        req_body = JObj [(''count'', JNum 1),
                                         (''sendInvitationOnTestActivation'', JBool False)]\<rparr>))"
proof (intro conjI impI allI)
  assume "httpMethod ev1 = httpMethod ev2 \<and> originHeader ev1 = originHeader ev2
      \<and> parse_body ev1 w = Some b1 \<and> parse_body ev2 w = Some b2
      \<and> opt_prop (Some b1) ''token'' = opt_prop (Some b2) ''token''
      \<and> opt_prop (Some b1) ''testId'' = opt_prop (Some b2) ''testId''"
  then show "getAccessCode_handler ev1 w = getAccessCode_handler ev2 w"
    by (simp add: getAccessCode_handler_def validateRequestBody_eq)
next
  fix r
  assume "ProviderCall r \<in> set (new_effects w (snd (getAccessCode_handler ev1 w)))"
  from handler_provider_call [OF this]
  show "\<exists>b tid k. parse_body ev1 w = Some b
               \<and> opt_prop (Some b) ''testId'' = Some (JStr tid)
               \<and> fst (getTestPortalApiKey w) = Inr (Some k)
               \<and> r = \<lparr>req_url = api_url w @ ''/manager/me/tests/'' @ tid
                                   @ ''/current-date/access-codes/add'',
                        req_method = ''POST'',
                        req_content_type = ''application/json'',
                        req_api_key = k,
                        req_body = JObj [(''count'', JNum 1),
                                         (''sendInvitationOnTestActivation'', JBool False)]\<rparr>"
    unfolding access_code_request_def by blast
qed

lemma example_parse_body_email:
  "example_parse example_body_email =
     Some (JObj [(''token'', JStr example_token), (''testId'', JStr ''t1''), (''email'', JStr ''a@b.c'')])"
  by (simp add: example_parse_def example_body_def example_body_email_def)

theorem exchange_reads_token_and_testId_only_witness:
  "getAccessCode_handler (example_event example_body_email) issued_world
     = getAccessCode_handler (example_event example_body) issued_world
   \<and> getAccessCode_handler (example_event example_body_email) failing_provider_world
     = getAccessCode_handler (example_event example_body) failing_provider_world
   \<and> filter is_provider_call (new_effects failing_provider_world
        (snd (getAccessCode_handler (example_event example_body_email) failing_provider_world)))
     = [ProviderCall
          \<lparr>req_url = ''https://www.testportal.com/api/v1/manager/me/tests/t1/current-date/access-codes/add'',
           req_method = ''POST'',
           req_content_type = ''application/json'',
           req_api_key = JStr ''old-key'',
           req_body = JObj [(''count'', JNum 1), (''sendInvitationOnTestActivation'', JBool False)]\<rparr>]"
proof -
  let ?e1 = "example_event example_body_email"
  let ?e2 = "example_event example_body"
  let ?b1 = "JObj [(''token'', JStr example_token), (''testId'', JStr ''t1''), (''email'', JStr ''a@b.c'')]"
  let ?b2 = "JObj [(''token'', JStr example_token), (''testId'', JStr ''t1'')]"
  have ne: "example_body_email \<noteq> []" by (simp add: example_body_email_def)
  have p1: "JSON_parse w = example_parse \<Longrightarrow> parse_body ?e1 w = Some ?b1" for w
    by (simp add: parse_body_def example_event_def example_parse_body_email ne)
  have j: "JSON_parse issued_world = example_parse" "JSON_parse failing_provider_world = example_parse"
    by (simp_all add: failing_provider_world_def keyed_world_def issued_world_def example_world_def)
  have same: "getAccessCode_handler ?e1 w = getAccessCode_handler ?e2 w"
    if "JSON_parse w = example_parse" for w
    using exchange_reads_token_and_testId_only [of ?e1 ?e2 w ?b1 ?b2] that
    by (simp add: example_event_accepted p1 parse_example_body)
  have calls: "filter is_provider_call (new_effects failing_provider_world
        (snd (getAccessCode_handler ?e2 failing_provider_world)))
     = [ProviderCall
          \<lparr>req_url = ''https://www.testportal.com/api/v1/manager/me/tests/t1/current-date/access-codes/add'',
           req_method = ''POST'',
           req_content_type = ''application/json'',
           req_api_key = JStr ''old-key'',
           req_body = JObj [(''count'', JNum 1), (''sendInvitationOnTestActivation'', JBool False)]\<rparr>]"
    by code_simp
  show ?thesis
    using same [OF j(1)] same [OF j(2)] calls by simp
qed


section \<open>Properties of the issuer\<close>

text \<open>What \<open>storeToken\<close> does, by whether the store accepts the write.\<close>

lemma storeToken_rejected:
  "put_rejects w = Some e \<Longrightarrow>
     storeToken tok w =
       (Inl e, emit (StorePut \<lparr>token = tok, ttl = Num (nowSeconds w + 900),
                                createdAt = Num (nowSeconds w)\<rparr>) w)"
  by (simp add: storeToken_def Let_def TOKEN_TTL_SECONDS_def)

lemma storeToken_accepted:
  "put_rejects w = None \<Longrightarrow>
     snd (storeToken tok w) =
       (emit (StorePut \<lparr>token = tok, ttl = Num (nowSeconds w + 900),
                          createdAt = Num (nowSeconds w)\<rparr>) w)
       \<lparr>table := (table w)(tok \<mapsto> \<lparr>token = tok, ttl = Num (nowSeconds w + 900),
                                       createdAt = Num (nowSeconds w)\<rparr>)\<rparr>"
  by (simp add: storeToken_def Let_def TOKEN_TTL_SECONDS_def split: sum.splits)

lemma requestToken_handler_returns: "\<exists>r. fst (requestToken_handler ev w) = Inr r"
  by (cases "storeToken (generateToken w) w"; cases "fst (storeToken (generateToken w) w)")
     (auto simp: requestToken_handler_def Let_def)

lemma requestToken_issued:
  assumes "requestToken_handler ev w = (Inr r, w')"
    and "opt_prop (resp_body r) ''token'' = Some tokv"
  shows "statusCode r = 200 \<and> put_rejects w = None
         \<and> tokv = JStr (generateToken w)
         \<and> table w' (generateToken w) =
             Some \<lparr>token = generateToken w, ttl = Num (nowSeconds w + 900),
                   createdAt = Num (nowSeconds w)\<rparr>
         \<and> new_effects w w' =
             [StorePut \<lparr>token = generateToken w, ttl = Num (nowSeconds w + 900),
                        createdAt = Num (nowSeconds w)\<rparr>]"
proof -
  let ?tok = "generateToken w"
  let ?item = "\<lparr>token = ?tok, ttl = Num (nowSeconds w + 900), createdAt = Num (nowSeconds w)\<rparr>"
  have gates: "httpMethod ev = ''POST''" "originHeader ev = Some ALLOWED_ORIGIN"
    using assms by (auto simp: requestToken_handler_def createResponse_def split: if_splits)
  obtain res w1 where st: "storeToken ?tok w = (res, w1)"
    by (cases "storeToken ?tok w") auto
  have res: "res = Inr ()"
    using assms gates st
    by (cases res) (auto simp: requestToken_handler_def Let_def createResponse_def)
  have r: "r = createResponse 200 [(''token'', JStr ?tok)]" "w' = w1"
    using assms gates st res by (auto simp: requestToken_handler_def Let_def)
  have acc: "put_rejects w = None"
    using st res by (cases "put_rejects w") (auto simp: storeToken_rejected)
  have w1: "w1 = (emit (StorePut ?item) w)\<lparr>table := (table w)(?tok \<mapsto> ?item)\<rparr>"
    using storeToken_accepted [OF acc, of ?tok] st by simp
  show ?thesis
    using assms(2) r acc w1 by (auto simp: createResponse_def new_effects_def)
qed

lemma requestToken_store_failure:
  assumes "httpMethod ev = ''POST''" "originHeader ev = Some ALLOWED_ORIGIN"
    and "put_rejects w = Some e"
  shows "fst (requestToken_handler ev w) =
           Inr (createResponse 500
             [(''message'', JStr ''Internal server error''),
              (''error'', JStr (case error_message e of Some m \<Rightarrow> m | None \<Rightarrow> ''Unknown error''))])
         \<and> table (snd (requestToken_handler ev w)) = table w"
  using assms by (simp add: requestToken_handler_def Let_def storeToken_rejected)

text \<open>
  C5: no token without its record. Whenever the reply of the issuing handler carries a
  \<open>token\<close> field, the reply is 200, the store accepted the write, the one outside call of
  the run is the write of the record with \<open>createdAt = now\<close> and \<open>ttl = now + 900\<close>, and
  the table holds that record under the token. When the store rejects the write, an
  accepted request is answered 500 with the message of the error and no token, and the
  table is as before. The handler returns in every case.
\<close>

theorem requestToken_no_orphan:
  "(\<forall>r w' tokv. requestToken_handler ev w = (Inr r, w')
       \<and> opt_prop (resp_body r) ''token'' = Some tokv
     \<longrightarrow> statusCode r = 200 \<and> put_rejects w = None
         \<and> tokv = JStr (generateToken w)
         \<and> table w' (generateToken w) =
             Some \<lparr>token = generateToken w, ttl = Num (nowSeconds w + 900),
                   createdAt = Num (nowSeconds w)\<rparr>
         \<and> new_effects w w' =
             [StorePut \<lparr>token = generateToken w, ttl = Num (nowSeconds w + 900),
                        createdAt = Num (nowSeconds w)\<rparr>])
   \<and> (\<forall>e. httpMethod ev = ''POST'' \<and> originHeader ev = Some ALLOWED_ORIGIN
           \<and> put_rejects w = Some e
     \<longrightarrow> fst (requestToken_handler ev w) =
           Inr (createResponse 500
             [(''message'', JStr ''Internal server error''),
              (''error'', JStr (case error_message e of Some m \<Rightarrow> m | None \<Rightarrow> ''Unknown error''))])
         \<and> table (snd (requestToken_handler ev w)) = table w)
   \<and> (\<exists>r. fst (requestToken_handler ev w) = Inr r)"
  using requestToken_issued [of ev w] requestToken_store_failure [of ev w]
        requestToken_handler_returns [of ev w]
  by blast

theorem requestToken_no_orphan_witness:
  "fst (requestToken_handler (example_event []) example_world)
     = Inr (createResponse 200 [(''token'', JStr example_token)])
   \<and> table (snd (requestToken_handler (example_event []) example_world)) example_token
       = Some example_record
   \<and> fst (requestToken_handler (example_event [])
           (example_world\<lparr>put_rejects := Some (JsError ''TimeoutError'' ''store unreachable'')\<rparr>))
     = Inr (createResponse 500
         [(''message'', JStr ''Internal server error''), (''error'', JStr ''store unreachable'')])
   \<and> table (snd (requestToken_handler (example_event [])
           (example_world\<lparr>put_rejects := Some (JsError ''TimeoutError'' ''store unreachable'')\<rparr>)))
     = table example_world"
proof -
  let ?ev = "example_event []"
  let ?w2 = "example_world\<lparr>put_rejects := Some (JsError ''TimeoutError'' ''store unreachable'')\<rparr>"
  have g: "generateToken example_world = example_token"
    by code_simp
  have n: "nowSeconds example_world = 1700000000"
    by code_simp
  have f: "fst (requestToken_handler ?ev example_world)
     = Inr (createResponse 200 [(''token'', JStr example_token)])"
    by code_simp
  obtain w' where h: "requestToken_handler ?ev example_world
     = (Inr (createResponse 200 [(''token'', JStr example_token)]), w')"
    using f by (cases "requestToken_handler ?ev example_world") auto
  have first: "table (snd (requestToken_handler ?ev example_world)) example_token = Some example_record"
    using requestToken_no_orphan [of ?ev example_world] h
    by (auto simp: createResponse_def g n example_record_def)
  have second: "fst (requestToken_handler ?ev ?w2)
     = Inr (createResponse 500
         [(''message'', JStr ''Internal server error''), (''error'', JStr ''store unreachable'')])
     \<and> table (snd (requestToken_handler ?ev ?w2)) = table example_world"
    using requestToken_no_orphan [of ?ev ?w2]
    by (simp add: example_event_accepted)
  from f first second show ?thesis by blast
qed

section \<open>Properties of the credential lookup\<close>

text \<open>A value that \<open>getSecret\<close> returns is in the cache afterwards.\<close>

lemma getSecret_caches:
  "fst (getSecret n w) = Inr (Some v) \<Longrightarrow> secretsCache (snd (getSecret n w)) n = Some v"
  by (auto simp: getSecret_def Let_def split: option.splits secret_reply.splits if_splits)

lemma getSecret_cached:
  "secretsCache w n = Some v \<Longrightarrow> getSecret n w = (Inr (Some v), w)"
  by (simp add: getSecret_def)



text \<open>
  The cache has no expiry: a value that a call has returned is returned again by the next
  call of the same instance, at any clock time and whatever the secret store holds by
  then, and that call changes nothing, so it contacts nothing.
\<close>

lemma getSecret_memoized:
  assumes "fst (getSecret n w) = Inr (Some v)"
  shows "getSecret n ((snd (getSecret n w))\<lparr>now_ms := t, secret_store := s\<rparr>)
           = (Inr (Some v), (snd (getSecret n w))\<lparr>now_ms := t, secret_store := s\<rparr>)"
proof -
  have "secretsCache ((snd (getSecret n w))\<lparr>now_ms := t, secret_store := s\<rparr>) n = Some v"
    using assms by (simp add: getSecret_caches)
  then show ?thesis by (rule getSecret_cached)
qed





section \<open>Tokens never issued\<close>

lemma issued_tokens_append:
  "issued_tokens (xs @ ys) = issued_tokens xs @ issued_tokens ys"
  by (induction xs rule: issued_tokens.induct) simp_all

lemma requestAccessCode_table: "table (snd (requestAccessCode tid w)) = table w"
proof -
  obtain k where k: "fst (getTestPortalApiKey w) = Inr k"
    using getTestPortalApiKey_returns by blast
  show ?thesis
    by (cases k) (simp_all add: k requestAccessCode_no_key requestAccessCode_key
                     getTestPortalApiKey_fields)
qed

text \<open>The exchange leaves the table alone and only extends the trace, by no write.\<close>

lemma getAccessCode_handler_table: "table (snd (getAccessCode_handler ev w)) = table w"
proof -
  have "table (snd (getAccessCode_handler ev w)) = table w"
    if acc: "httpMethod ev = ''POST''" "originHeader ev = Some ALLOWED_ORIGIN"
         "parse_body ev w = Some b"
         "opt_prop (Some b) ''token'' = Some (JStr tok)" "tok \<noteq> []"
         "opt_prop (Some b) ''testId'' = Some (JStr tid)" "tid \<noteq> []" for b tok tid
  proof (cases "fst (validateToken (Some (JStr tok)) w) = Inr True")
    case True
    then show ?thesis
      by (simp add: handler_accepted_valid_world [OF acc] requestAccessCode_table)
  next
    case False
    then show ?thesis by (simp add: handler_accepted_invalid [OF acc])
  qed
  with handler_cases [of ev w] show ?thesis by auto
qed

lemma getAccessCode_handler_issued:
  "issued_tokens (trace (snd (getAccessCode_handler ev w))) = issued_tokens (trace w)"
proof -
  have "issued_tokens (trace (snd (getAccessCode_handler ev w))) = issued_tokens (trace w)"
    if acc: "httpMethod ev = ''POST''" "originHeader ev = Some ALLOWED_ORIGIN"
         "parse_body ev w = Some b"
         "opt_prop (Some b) ''token'' = Some (JStr tok)" "tok \<noteq> []"
         "opt_prop (Some b) ''testId'' = Some (JStr tid)" "tid \<noteq> []" for b tok tid
  proof (cases "fst (validateToken (Some (JStr tok)) w) = Inr True")
    case True
    let ?w1 = "emit (StoreGet tok) w"
    obtain k where k: "fst (getTestPortalApiKey ?w1) = Inr k"
      using getTestPortalApiKey_returns by blast
    from requestAccessCode_effects [where w = ?w1 and tid = tid]
    have "issued_tokens (trace (snd (requestAccessCode tid ?w1))) = issued_tokens (trace ?w1)"
      by (cases k) (auto simp: k issued_tokens_append)
    then show ?thesis
      by (simp add: handler_accepted_valid_world [OF acc True] issued_tokens_append)
  next
    case False
    then show ?thesis
      by (simp add: handler_accepted_invalid [OF acc] issued_tokens_append)
  qed
  with handler_cases [of ev w] show ?thesis by auto
qed

text \<open>The issuer adds to the table at most the record of the token it has sent to the store.\<close>

lemma requestToken_handler_world:
  "snd (requestToken_handler ev w) = w \<or>
   (issued_tokens (trace (snd (requestToken_handler ev w)))
      = issued_tokens (trace w) @ [generateToken w]
    \<and> (\<forall>k. k \<noteq> generateToken w \<longrightarrow> table (snd (requestToken_handler ev w)) k = table w k))"
proof (cases "httpMethod ev = ''POST'' \<and> originHeader ev = Some ALLOWED_ORIGIN")
  case False
  then show ?thesis by (auto simp: requestToken_handler_def)
next
  case True
  then have s: "snd (requestToken_handler ev w) = snd (storeToken (generateToken w) w)"
    by (cases "storeToken (generateToken w) w"; cases "fst (storeToken (generateToken w) w)")
       (auto simp: requestToken_handler_def Let_def)
  show ?thesis
  proof (cases "put_rejects w")
    case None
    then show ?thesis
      by (simp add: s storeToken_accepted issued_tokens_append)
  next
    case (Some e)
    then show ?thesis
      by (simp add: s storeToken_rejected issued_tokens_append)
  qed
qed

text \<open>In a reachable world, every token that the table holds a record of has been issued.\<close>

lemma reachable_table_issued:
  "reachable w \<Longrightarrow> table w k = Some r \<Longrightarrow> k \<in> set (issued_tokens (trace w))"
proof (induction arbitrary: k r rule: reachable.induct)
  case (start w)
  then show ?case by simp
next
  case (issue w ev)
  from requestToken_handler_world [of ev w] show ?case
  proof
    assume "snd (requestToken_handler ev w) = w"
    with issue show ?thesis by simp
  next
    assume a: "issued_tokens (trace (snd (requestToken_handler ev w)))
                 = issued_tokens (trace w) @ [generateToken w]
               \<and> (\<forall>k. k \<noteq> generateToken w \<longrightarrow> table (snd (requestToken_handler ev w)) k = table w k)"
    show ?thesis
    proof (cases "k = generateToken w")
      case True
      with a show ?thesis by simp
    next
      case False
      with a issue.prems have "table w k = Some r" by simp
      with issue.IH a show ?thesis by simp
    qed
  qed
next
  case (exchange w ev)
  then show ?case
    by (simp add: getAccessCode_handler_table getAccessCode_handler_issued)
next
  case (outside w w')
  then have "table w k = Some r" by (metis option.distinct(1))
  with outside show ?case by simp
qed

text \<open>A record that is stored, readable and not past its expiry second makes the token valid.\<close>

lemma validateToken_within_window:
  assumes "tok \<noteq> []" "get_rejects w = None" "table w tok = Some r"
    and "ttl r = Num e" "createdAt r = Num c" "nowSeconds w \<le> e"
    and "- 8640000000000000 \<le> c * 1000" "c * 1000 \<le> 8640000000000000"
    and "- 8640000000000000 \<le> e * 1000" "e * 1000 \<le> 8640000000000000"
  shows "fst (validateToken (Some (JStr tok)) w) = Inr True"
  using assms by (simp add: validateToken_True validateToken_try_True)

lemma storeToken_ok_date:
  "storeToken tok w0 = (Inr u, w1) \<Longrightarrow> (nowSeconds w0 + 900) * 1000 \<le> 8640000000000000"
  by (auto simp: storeToken_def Let_def TOKEN_TTL_SECONDS_def
           split: option.splits sum.splits if_splits)

lemma validateToken_issued_until_expiry:
  assumes "storeToken tok w0 = (Inr (), w1)" "table w tok = table w1 tok"
    and "tok \<noteq> []" "get_rejects w = None" "0 \<le> now_ms w0"
    and "nowSeconds w \<le> nowSeconds w0 + 900"
  shows "fst (validateToken (Some (JStr tok)) w) = Inr True"
proof -
  let ?r = "\<lparr>token = tok, ttl = Num (nowSeconds w0 + 900), createdAt = Num (nowSeconds w0)\<rparr>"
  have r: "table w tok = Some ?r"
    using storeToken_ok [of tok w0 "()" w1] assms(1,2) by simp
  have hi: "(nowSeconds w0 + 900) * 1000 \<le> 8640000000000000"
    using assms(1) by (rule storeToken_ok_date)
  have lo: "0 \<le> nowSeconds w0"
    using assms(5) by (simp add: nowSeconds_def pos_imp_zdiv_nonneg_iff)
  show ?thesis
    using assms(3,4,6) r hi lo
    by (intro validateToken_within_window [where r = ?r and e = "nowSeconds w0 + 900"
                                             and c = "nowSeconds w0"]) simp_all
qed

text \<open>
  C2, as amended: \<open>validateToken\<close> returns \<open>false\<close> for a token the table holds no record
  of, so, in every reachable world, for any string that was never issued; and for a token
  whose record is still stored but whose expiry lies strictly before the current time in
  seconds. For a token stored by \<open>storeToken\<close> that is every time at or after 15 minutes
  and one second from issuance. During the expiry second itself (the current time in
  seconds equals the stored expiry) the token is still accepted, provided the lookup is
  not rejected and the record is stored with time values in the range of \<open>Date\<close>; for a
  token stored by \<open>storeToken\<close> after the epoch that is the whole second that starts 15
  minutes after \<open>createdAt\<close>.
\<close>

theorem validateToken_false_after_expiry:
  "(table w tok = None \<longrightarrow> fst (validateToken (Some (JStr tok)) w) = Inr False)
   \<and> (\<forall>r e. table w tok = Some r \<and> ttl r = Num e \<and> e < nowSeconds w
         \<longrightarrow> fst (validateToken (Some (JStr tok)) w) = Inr False)
   \<and> (\<forall>w0 w1. storeToken tok w0 = (Inr (), w1) \<and> table w tok = table w1 tok
         \<and> now_ms w0 + 901000 \<le> now_ms w
         \<longrightarrow> fst (validateToken (Some (JStr tok)) w) = Inr False)
   \<and> (reachable w \<and> tok \<notin> set (issued_tokens (trace w))
         \<longrightarrow> fst (validateToken (Some (JStr tok)) w) = Inr False)
   \<and> (\<forall>r e c. tok \<noteq> [] \<and> get_rejects w = None \<and> table w tok = Some r
         \<and> ttl r = Num e \<and> createdAt r = Num c \<and> nowSeconds w = e
         \<and> - 8640000000000000 \<le> c * 1000 \<and> c * 1000 \<le> 8640000000000000
         \<and> - 8640000000000000 \<le> e * 1000 \<and> e * 1000 \<le> 8640000000000000
         \<longrightarrow> fst (validateToken (Some (JStr tok)) w) = Inr True)
   \<and> (\<forall>w0 w1. storeToken tok w0 = (Inr (), w1) \<and> table w tok = table w1 tok
         \<and> tok \<noteq> [] \<and> get_rejects w = None \<and> 0 \<le> now_ms w0
         \<and> nowSeconds w = nowSeconds w0 + 900
         \<longrightarrow> fst (validateToken (Some (JStr tok)) w) = Inr True)"
proof (intro conjI impI allI)
  assume "reachable w \<and> tok \<notin> set (issued_tokens (trace w))"
  then have "table w tok = None"
    using reachable_table_issued [of w tok] by (cases "table w tok") auto
  then show "fst (validateToken (Some (JStr tok)) w) = Inr False"
    by (intro validateToken_False) (simp add: validateToken_True validateToken_try_True)
next
  assume "table w tok = None"
  then show "fst (validateToken (Some (JStr tok)) w) = Inr False"
    by (intro validateToken_False) (simp add: validateToken_True validateToken_try_True)
next
  fix r e
  assume "table w tok = Some r \<and> ttl r = Num e \<and> e < nowSeconds w"
  then show "fst (validateToken (Some (JStr tok)) w) = Inr False"
    by (intro validateToken_False) (auto simp: validateToken_True validateToken_try_True)
next
  fix w0 w1
  assume a: "storeToken tok w0 = (Inr (), w1) \<and> table w tok = table w1 tok
         \<and> now_ms w0 + 901000 \<le> now_ms w"
  then have r: "table w tok = Some \<lparr>token = tok, ttl = Num (nowSeconds w0 + 900), createdAt = Num (nowSeconds w0)\<rparr>"
    using storeToken_ok [of tok w0 "()" w1] by simp
  have "(now_ms w0 + 901000) div 1000 \<le> now_ms w div 1000"
    using a by (intro zdiv_mono1) simp_all
  then have "nowSeconds w0 + 900 < nowSeconds w"
    by (simp add: nowSeconds_def)
  with r show "fst (validateToken (Some (JStr tok)) w) = Inr False"
    by (intro validateToken_False) (auto simp: validateToken_True validateToken_try_True)
next
  fix r e c
  assume "tok \<noteq> [] \<and> get_rejects w = None \<and> table w tok = Some r
         \<and> ttl r = Num e \<and> createdAt r = Num c \<and> nowSeconds w = e
         \<and> - 8640000000000000 \<le> c * 1000 \<and> c * 1000 \<le> 8640000000000000
         \<and> - 8640000000000000 \<le> e * 1000 \<and> e * 1000 \<le> 8640000000000000"
  then show "fst (validateToken (Some (JStr tok)) w) = Inr True"
    by (intro validateToken_within_window [where r = r and e = e and c = c]) simp_all
next
  fix w0 w1
  assume "storeToken tok w0 = (Inr (), w1) \<and> table w tok = table w1 tok
         \<and> tok \<noteq> [] \<and> get_rejects w = None \<and> 0 \<le> now_ms w0
         \<and> nowSeconds w = nowSeconds w0 + 900"
  then show "fst (validateToken (Some (JStr tok)) w) = Inr True"
    by (intro validateToken_issued_until_expiry [where ?w0.0 = w0 and ?w1.0 = w1]) simp_all
qed

theorem validateToken_false_after_expiry_witness:
  "fst (validateToken (Some (JStr ''never-issued'')) issued_world) = Inr False
   \<and> fst (validateToken (Some (JStr ''never-issued''))
          (snd (requestToken_handler (example_event []) example_world))) = Inr False
   \<and> fst (validateToken (Some (JStr example_token)) (issued_world\<lparr>now_ms := 1700000901000\<rparr>)) = Inr False
   \<and> fst (validateToken (Some (JStr example_token))
        ((snd (storeToken example_token example_world))\<lparr>now_ms := 1700000901000\<rparr>)) = Inr False
   \<and> fst (validateToken (Some (JStr example_token)) (issued_world\<lparr>now_ms := 1700000900999\<rparr>)) = Inr True
   \<and> fst (validateToken (Some (JStr example_token))
        ((snd (storeToken example_token example_world))\<lparr>now_ms := 1700000900000\<rparr>)) = Inr True"
proof -
  let ?w = "snd (requestToken_handler (example_event []) example_world)"
  let ?w1 = "snd (storeToken example_token example_world)"
  have "reachable example_world"
    by (rule reachable.start) (simp_all add: example_world_def)
  then have r: "reachable ?w"
    by (rule reachable.issue)
  have i: "issued_tokens (trace ?w) = [example_token]"
    by code_simp
  have n: "''never-issued'' \<notin> set (issued_tokens (trace ?w))"
    by (simp add: i example_token_def)
  have fresh: "fst (validateToken (Some (JStr ''never-issued'')) ?w) = Inr False"
    using validateToken_false_after_expiry [of ?w "''never-issued''"] r n by blast
  have rest: "fst (validateToken (Some (JStr ''never-issued'')) issued_world) = Inr False
     \<and> fst (validateToken (Some (JStr example_token)) (issued_world\<lparr>now_ms := 1700000901000\<rparr>)) = Inr False
     \<and> fst (validateToken (Some (JStr example_token))
          (?w1\<lparr>now_ms := 1700000901000\<rparr>)) = Inr False"
    using validateToken_false_after_expiry [of issued_world "''never-issued''"]
          validateToken_false_after_expiry [of "issued_world\<lparr>now_ms := 1700000901000\<rparr>" example_token]
          validateToken_false_after_expiry [of "?w1\<lparr>now_ms := 1700000901000\<rparr>" example_token]
    by (simp add: issued_world_def example_world_def example_token_def example_record_def nowSeconds_def
        storeToken_def Let_def emit_def TOKEN_TTL_SECONDS_def)
  have rec: "tok_rec = example_record \<Longrightarrow>
        example_token \<noteq> [] \<and> get_rejects (issued_world\<lparr>now_ms := 1700000900999\<rparr>) = None
         \<and> table (issued_world\<lparr>now_ms := 1700000900999\<rparr>) example_token = Some tok_rec
         \<and> ttl tok_rec = Num 1700000900 \<and> createdAt tok_rec = Num 1700000000
         \<and> nowSeconds (issued_world\<lparr>now_ms := 1700000900999\<rparr>) = 1700000900" for tok_rec
    by (simp add: issued_world_def example_world_def example_token_def example_record_def nowSeconds_def)
  have last_ms: "fst (validateToken (Some (JStr example_token))
                   (issued_world\<lparr>now_ms := 1700000900999\<rparr>)) = Inr True"
    using validateToken_false_after_expiry [of "issued_world\<lparr>now_ms := 1700000900999\<rparr>" example_token]
          rec [OF refl]
    by (elim conjE allE [where x = example_record] allE [where x = 1700000900]
             allE [where x = 1700000000]) simp
  have st: "storeToken example_token example_world = (Inr (), ?w1)"
    by (cases "storeToken example_token example_world";
        cases "fst (storeToken example_token example_world)")
       (auto simp: storeToken_def Let_def example_world_def emit_def TOKEN_TTL_SECONDS_def
                   nowSeconds_def split: if_splits)
  have side: "example_token \<noteq> [] \<and> get_rejects (?w1\<lparr>now_ms := 1700000900000\<rparr>) = None
        \<and> 0 \<le> now_ms example_world
        \<and> nowSeconds (?w1\<lparr>now_ms := 1700000900000\<rparr>) = nowSeconds example_world + 900"
    by (simp add: example_world_def example_token_def nowSeconds_def
        storeToken_def Let_def emit_def TOKEN_TTL_SECONDS_def)
  have first_ms: "fst (validateToken (Some (JStr example_token))
                   (?w1\<lparr>now_ms := 1700000900000\<rparr>)) = Inr True"
    using validateToken_false_after_expiry [of "?w1\<lparr>now_ms := 1700000900000\<rparr>" example_token]
          st side
    by (elim conjE allE [where x = example_world] allE [where x = ?w1]) simp
  from fresh rest last_ms first_ms show ?thesis by blast
qed

text \<open>
  C2 as stated fails at the expiry itself: the check is \<open>record.ttl < now\<close>, so a token
  issued at 1700000000000 ms, whose record expires at 1700000900 s, is still valid at
  1700000900000 ms, exactly 15 minutes after \<open>createdAt\<close>.
\<close>

theorem validateToken_at_expiry_counterexample:
  "table (snd (storeToken example_token example_world)) example_token = Some example_record
   \<and> now_ms example_world + 15 * 60 * 1000 = 1700000900000
   \<and> fst (validateToken (Some (JStr example_token))
        ((snd (storeToken example_token example_world))\<lparr>now_ms := 1700000900000\<rparr>)) = Inr True"
  by code_simp

end
